theory Spec2Isabelle
  imports Main
begin

section \<open>Python string helpers used by the calendar code\<close>

text \<open>
  Strings are \<open>char list\<close>. The accented letters of the French messages are written as
  their UTF-8 bytes; the code never indexes into a message, and the only indexing it does
  (\<open>phone[1:]\<close>, \<open>startswith\<close>) is on ASCII prefixes, where bytes and code points agree.
\<close>

text \<open>\<open>s.split(sep)\<close> for a one-character separator: always at least one part.\<close>

fun split_aux :: "char \<Rightarrow> string \<Rightarrow> string \<Rightarrow> string list" where
  "split_aux sep acc [] = [rev acc]"
| "split_aux sep acc (c # cs) =
     (if c = sep then rev acc # split_aux sep [] cs else split_aux sep (c # acc) cs)"

definition split :: "char \<Rightarrow> string \<Rightarrow> string list" where
  "split sep s = split_aux sep [] s"

text \<open>\<open>s.startswith(c)\<close> for a one-character prefix.\<close>

definition startswith :: "string \<Rightarrow> char \<Rightarrow> bool" where
  "startswith s c = (case s of [] \<Rightarrow> False | x # _ \<Rightarrow> x = c)"


definition is_space :: "char \<Rightarrow> bool" where
  "is_space c = (c \<in> set [CHR 0x09, CHR 0x0A, CHR 0x0B, CHR 0x0C, CHR 0x0D, CHR 0x20])"

definition strip :: "string \<Rightarrow> string" where
  "strip s = rev (dropWhile is_space (rev (dropWhile is_space s)))"

definition is_digit :: "char \<Rightarrow> bool" where
  "is_digit c = (c \<in> set ''0123456789'')"

definition digit_val :: "char \<Rightarrow> nat" where
  "digit_val c = length (takeWhile (\<lambda>x. x \<noteq> c) ''0123456789'')"

fun int_digits :: "nat \<Rightarrow> string \<Rightarrow> nat option" where
  "int_digits acc [] = Some acc"
| "int_digits acc [c] = (if is_digit c then Some (10 * acc + digit_val c) else None)"
| "int_digits acc (c # d # ds) =
     (if is_digit c then int_digits (10 * acc + digit_val c) (d # ds)
      else if c = CHR ''_'' \<and> is_digit d then int_digits (10 * acc + digit_val d) ds
      else None)"

definition int_unsigned :: "string \<Rightarrow> nat option" where
  "int_unsigned s =
     (case s of [] \<Rightarrow> None
      | c # cs \<Rightarrow> if is_digit c then int_digits (digit_val c) cs else None)"

definition py_int :: "string \<Rightarrow> int option" where
  "py_int s =
     (case strip s of
        [] \<Rightarrow> None
      | c # cs \<Rightarrow>
          if c = CHR ''-'' then map_option (\<lambda>n. - int n) (int_unsigned cs)
          else if c = CHR ''+'' then map_option int (int_unsigned cs)
          else map_option int (int_unsigned (c # cs)))"

text \<open>\<open>str(n)\<close> for a non-negative number, and the format \<open>{n:02d}\<close>.\<close>

definition digit_char :: "nat \<Rightarrow> char" where
  "digit_char d = ''0123456789'' ! (d mod 10)"

fun str_nat :: "nat \<Rightarrow> string" where
  "str_nat n = (if n < 10 then [digit_char n] else str_nat (n div 10) @ [digit_char (n mod 10)])"

declare str_nat.simps [simp del]

definition zfill :: "nat \<Rightarrow> string \<Rightarrow> string" where
  "zfill w s = replicate (w - length s) CHR ''0'' @ s"

definition fmt_02d :: "int \<Rightarrow> string" where
  "fmt_02d n = (if 0 \<le> n then zfill 2 (str_nat (nat n))
                else CHR ''-'' # zfill 1 (str_nat (nat (- n))))"

section \<open>Slot engine: the candidate enumeration of \<open>get_available_slots\<close>\<close>

text \<open>
  Both implementations (\<^verbatim>\<open>src/agent/tools/calendar.py\<close> and \<^verbatim>\<open>src/agent.py\<close>) hold the
  same lines:
  \<^verbatim>\<open>
  start_hour, end_hour = settings.BUSINESS_HOURS.split('-')
  start_hour = int(start_hour.split(':')[0])
  end_hour = int(end_hour.split(':')[0])
  all_slots = []
  for hour in range(start_hour, end_hour):
      for minute in [0, 30]:
          if hour == end_hour - 1 and minute == 30:
              break
          all_slots.append(f"{hour:02d}:{minute:02d}")
  \<close>
  Every exception is a \<open>string\<close> (its \<open>str(e)\<close>) on the left of a sum. The text of the
  \<open>ValueError\<close> of \<open>int\<close> is cut before the quoted literal that Python appends to it.
\<close>

type_synonym exn = string

definition parse_business_hours :: "string \<Rightarrow> exn + (int \<times> int)" where
  "parse_business_hours bh =
     (case split CHR ''-'' bh of
        [a, b] \<Rightarrow>
          (case py_int (hd (split CHR '':'' a)) of
             None \<Rightarrow> Inl ''invalid literal for int() with base 10''
           | Some start_hour \<Rightarrow>
               (case py_int (hd (split CHR '':'' b)) of
                  None \<Rightarrow> Inl ''invalid literal for int() with base 10''
                | Some end_hour \<Rightarrow> Inr (start_hour, end_hour)))
      | [a] \<Rightarrow> Inl ''not enough values to unpack (expected 2, got 1)''
      | _ \<Rightarrow> Inl ''too many values to unpack (expected 2)'')"

text \<open>The inner loop over \<open>[0, 30]\<close>, with its \<open>break\<close>.\<close>

fun minute_loop :: "int \<Rightarrow> int \<Rightarrow> int list \<Rightarrow> string list" where
  "minute_loop hour end_hour [] = []"
| "minute_loop hour end_hour (minute # ms) =
     (if hour = end_hour - 1 \<and> minute = 30 then []
      else (fmt_02d hour @ '':'' @ fmt_02d minute) # minute_loop hour end_hour ms)"

text \<open>The outer loop over \<open>range(start_hour, end_hour)\<close>: \<open>[start_hour..end_hour - 1]\<close>.\<close>

definition hour_loop :: "int \<Rightarrow> int \<Rightarrow> string list" where
  "hour_loop start_hour end_hour =
     concat (map (\<lambda>hour. minute_loop hour end_hour [0, 30]) [start_hour..end_hour - 1])"

definition all_slots :: "string \<Rightarrow> exn + string list" where
  "all_slots bh =
     (case parse_business_hours bh of
        Inl e \<Rightarrow> Inl e
      | Inr (start_hour, end_hour) \<Rightarrow> Inr (hour_loop start_hour end_hour))"

text \<open>Reading a slot label \<open>HH:MM\<close> back as minutes after midnight, to state order and bounds.\<close>

definition slot_minutes :: "string \<Rightarrow> int option" where
  "slot_minutes s =
     (case split CHR '':'' s of
        [h, m] \<Rightarrow> (case (py_int h, py_int m) of
                     (Some hh, Some mm) \<Rightarrow> Some (60 * hh + mm)
                   | _ \<Rightarrow> None)
      | _ \<Rightarrow> None)"

definition str_int :: "int \<Rightarrow> string" where
  "str_int n = (if 0 \<le> n then str_nat (nat n) else CHR ''-'' # str_nat (nat (- n)))"

section \<open>Naive datetimes and \<open>start_datetime + datetime.timedelta(minutes=n)\<close>\<close>

text \<open>
  A naive \<open>datetime\<close> with minute resolution (what \<open>strptime\<close> with \<open>%Y-%m-%d %H:%M\<close>
  returns) is the number of minutes of its wall clock since 1970-01-01 00:00.
  \<open>datetime.min\<close> is 0001-01-01 00:00 and the last minute before \<open>datetime.max\<close> is
  9999-12-31 23:59. \<open>timedelta(minutes=n)\<close> raises \<open>OverflowError\<close> when its days exceed
  999999999 in magnitude, and the sum raises \<open>OverflowError\<close> when it leaves the range of
  \<open>datetime\<close>; both happen inside the \<open>try\<close> of the calling method.
\<close>

definition datetime_min :: int where
  "datetime_min = - 1035593280"

definition datetime_max :: int where
  "datetime_max = 4223371679"

definition timedelta :: "int \<Rightarrow> exn + int" where
  "timedelta minutes =
     (let days = minutes div 1440 in
      if - 999999999 \<le> days \<and> days \<le> 999999999 then Inr minutes
      else if - 2147483648 \<le> days \<and> days \<le> 2147483647
        then Inl (''days='' @ str_int days @ ''; must have magnitude <= 999999999'')
      else Inl ''Python int too large to convert to C int'')"

definition add_minutes :: "int \<Rightarrow> int \<Rightarrow> exn + int" where
  "add_minutes start_datetime minutes =
     (case timedelta minutes of
        Inl e \<Rightarrow> Inl e
      | Inr delta \<Rightarrow>
          if datetime_min \<le> start_datetime + delta \<and> start_datetime + delta \<le> datetime_max
          then Inr (start_datetime + delta)
          else Inl ''date value out of range'')"

section \<open>The external collaborators: calendar gateway, mail and SMS transport\<close>

text \<open>
  \<open>datetime.strptime\<close>, the Google Calendar client
  (\<open>service.events().list/insert/delete(...).execute()\<close>), \<open>smtplib\<close> and the Twilio
  endpoint are not code of the repository: they are the fields of an environment record, so
  every theorem below holds for whatever they do. A call that raises returns \<open>Inl\<close> of
  the exception's text. The state of the calendar store has an arbitrary type \<open>'g\<close>.

  The code hands the store times in two spellings. The bounds of a list query are
  \<open>start_datetime.isoformat() + 'Z'\<close>: the wall clock read as UTC (\<open>UTC n\<close>). The start and
  end of an inserted event are the bare \<open>isoformat()\<close> together with a \<open>timeZone\<close>: the wall
  clock of that zone. An event the store holds is kept by its instants, in minutes UTC.
\<close>

datatype stamp = UTC int

abbreviation e_acute :: string where "e_acute \<equiv> [CHR 0xC3, CHR 0xA9]"
abbreviation a_grave :: string where "a_grave \<equiv> [CHR 0xC3, CHR 0xA0]"
abbreviation e_grave :: string where "e_grave \<equiv> [CHR 0xC3, CHR 0xA8]"
abbreviation apostrophe :: string where "apostrophe \<equiv> [CHR 0x27]"

record cal_event =
  ev_id :: string
  ev_start :: int
  ev_end :: int

text \<open>The body handed to \<open>events().insert\<close> by \<open>book_appointment\<close>.\<close>

record event_body =
  summary :: string
  description :: string
  start_dateTime :: int
  end_dateTime :: int
  timeZone :: string
  attendees :: "(string \<times> string) list"
  extendedProperties :: "(string \<times> string) list"
  sendUpdates :: string

text \<open>
  The response of \<open>insert\<close>: the code reads \<open>created_event['id']\<close>, which every response
  of the store carries, and \<open>created_event.get('htmlLink', '')\<close>.
\<close>

record created_event =
  created_id :: string
  htmlLink :: "string option"

datatype call =
    ListCall stamp stamp
  | InsertCall event_body
  | DeleteCall string
  | SmtpSend string
  | TwilioPost string

record 'g env =
  BUSINESS_HOURS :: string
  APPOINTMENT_DURATION :: int
  credentials_load :: bool
  strptime :: "string \<Rightarrow> string \<Rightarrow> exn + int"
  events_list :: "'g \<Rightarrow> stamp \<Rightarrow> stamp \<Rightarrow> exn + cal_event list"
  events_insert :: "'g \<Rightarrow> event_body \<Rightarrow> exn + (created_event \<times> 'g)"
  events_delete :: "'g \<Rightarrow> string \<Rightarrow> exn + 'g"
  smtp_configured :: bool
  smtp_send :: "string \<Rightarrow> exn option"
  twilio_configured :: bool
  twilio_post :: "string \<Rightarrow> exn + nat"

text \<open>
  \<open>credentials_load\<close>: the credentials named by the settings load, are valid, and
  \<open>build('calendar', 'v3', ...)\<close> returns; \<open>initialize\<close> catches every exception and
  returns \<open>False\<close> otherwise. \<open>smtp_configured\<close>: server, user name and password are all set;
  \<open>smtp_send r\<close>: \<open>None\<close> when connecting, logging in and sending to \<open>r\<close> all return.
  \<open>twilio_configured\<close>: account, token and sender number are all set; \<open>twilio_post r\<close>: the
  HTTP status of the POST to the Messages endpoint with \<open>To = r\<close>.

  The world: whether \<open>self.service\<close> is set, the calendar store, and the external calls
  made so far, oldest first.
\<close>

record 'g world =
  service :: bool
  cal :: 'g
  trace :: "call list"

definition log_call :: "call \<Rightarrow> 'g world \<Rightarrow> 'g world" where
  "log_call c w = w\<lparr>trace := trace w @ [c]\<rparr>"

section \<open>\<^verbatim>\<open>src/agent/tools/calendar.py\<close>: \<open>CalendarManager\<close>\<close>

definition initialize :: "'g env \<Rightarrow> 'g world \<Rightarrow> 'g world \<times> bool" where
  "initialize env w =
     (if credentials_load env then (w\<lparr>service := True\<rparr>, True) else (w, False))"

text \<open>\<open>if not self.service: await self.initialize()\<close>, the first lines of every method.\<close>

definition ensure_service :: "'g env \<Rightarrow> 'g world \<Rightarrow> 'g world" where
  "ensure_service env w = (if \<not> service w then fst (initialize env w) else w)"

record availability =
  available :: bool
  conflicting_events :: "nat option"
  a_error :: "string option"
  a_message :: string

definition msg_slot_taken :: "nat \<Rightarrow> string" where
  "msg_slot_taken n =
     ''D'' @ e_acute @ ''sol'' @ e_acute @ '', ce cr'' @ e_acute @ ''neau n'' @ apostrophe
     @ ''est pas disponible. Il y a d'' @ e_acute @ ''j'' @ a_grave @ '' '' @ str_nat n
     @ '' rendez-vous '' @ a_grave @ '' cette heure.''"

definition msg_slot_free :: "string \<Rightarrow> string \<Rightarrow> string" where
  "msg_slot_free date time =
     ''Parfait ! Le cr'' @ e_acute @ ''neau du '' @ date @ '' '' @ a_grave @ '' '' @ time
     @ '' est disponible.''"

definition check_availability ::
  "'g env \<Rightarrow> 'g world \<Rightarrow> string \<Rightarrow> string \<Rightarrow> 'g world \<times> availability" where
  "check_availability env w date time =
     (let w1 = ensure_service env w in
      if \<not> service w1 then
        (w1, \<lparr>available = False, conflicting_events = None,
              a_error = Some ''Calendar service not available'',
              a_message = ''Impossible de v'' @ e_acute @ ''rifier les disponibilit''
                @ e_acute @ ''s pour le moment.''\<rparr>)
      else
        let failed = (\<lambda>e. \<lparr>available = False, conflicting_events = None, a_error = Some e,
              a_message = ''Impossible de v'' @ e_acute @ ''rifier les disponibilit''
                @ e_acute @ ''s. Veuillez r'' @ e_acute @ ''essayer.''\<rparr>) in
        case strptime env date time of
          Inl e \<Rightarrow> (w1, failed e)
        | Inr start_datetime \<Rightarrow>
            (case add_minutes start_datetime (APPOINTMENT_DURATION env) of
               Inl e \<Rightarrow> (w1, failed e)
             | Inr end_datetime \<Rightarrow>
                 let w2 = log_call (ListCall (UTC start_datetime) (UTC end_datetime)) w1
                 in case events_list env (cal w2) (UTC start_datetime) (UTC end_datetime) of
                      Inl e \<Rightarrow> (w2, failed e)
                    | Inr events \<Rightarrow>
                        if events \<noteq> [] then
                          (w2, \<lparr>available = False,
                                conflicting_events = Some (length events),
                                a_error = None,
                                a_message = msg_slot_taken (length events)\<rparr>)
                        else
                          (w2, \<lparr>available = True, conflicting_events = None,
                                a_error = None, a_message = msg_slot_free date time\<rparr>)))"

text \<open>The loop \<open>for time_slot in all_slots\<close> of \<open>get_available_slots\<close>.\<close>

fun check_slots ::
  "'g env \<Rightarrow> 'g world \<Rightarrow> string \<Rightarrow> string list \<Rightarrow> 'g world \<times> string list" where
  "check_slots env w date [] = (w, [])"
| "check_slots env w date (time_slot # rest) =
     (case check_availability env w date time_slot of
        (w1, availability) \<Rightarrow>
          (case check_slots env w1 date rest of
             (w2, found) \<Rightarrow>
               (w2, if available availability then time_slot # found else found)))"

record slots_result =
  s_date :: "string option"
  slots :: "string list"
  s_count :: "nat option"
  s_error :: "string option"
  s_message :: string

definition get_available_slots ::
  "'g env \<Rightarrow> 'g world \<Rightarrow> string \<Rightarrow> 'g world \<times> slots_result" where
  "get_available_slots env w date =
     (let w1 = ensure_service env w in
      if \<not> service w1 then
        (w1, \<lparr>s_date = None, slots = [], s_count = None,
              s_error = Some ''Calendar service not available'',
              s_message = ''Impossible de r'' @ e_acute @ ''cup'' @ e_acute @ ''rer les cr''
                @ e_acute @ ''neaux disponibles.''\<rparr>)
      else
        case all_slots (BUSINESS_HOURS env) of
          Inl e \<Rightarrow>
            (w1, \<lparr>s_date = None, slots = [], s_count = None, s_error = Some e,
                  s_message = ''Impossible de r'' @ e_acute @ ''cup'' @ e_acute
                    @ ''rer les cr'' @ e_acute @ ''neaux. Veuillez r'' @ e_acute
                    @ ''essayer.''\<rparr>)
        | Inr candidates \<Rightarrow>
            (case check_slots env w1 date candidates of
               (w2, available_slots) \<Rightarrow>
                 (w2, \<lparr>s_date = Some date, slots = available_slots,
                       s_count = Some (length available_slots), s_error = None,
                       s_message = ''Il y a '' @ str_nat (length available_slots) @ '' cr''
                         @ e_acute @ ''neaux disponibles le '' @ date @ ''.''\<rparr>)))"

section \<open>\<^verbatim>\<open>src/agent/tools/notifications.py\<close>: \<open>NotificationManager\<close>\<close>

text \<open>
  Each send returns a dictionary \<open>{success, error?, message}\<close> and catches every exception.
  The bodies of the messages are built from the appointment details, whose keys every
  caller supplies; they do not influence the outcome and are left out of the trace.
\<close>

record outcome =
  o_success :: bool
  o_error :: "string option"
  o_message :: string

definition send_email_confirmation ::
  "'g env \<Rightarrow> 'g world \<Rightarrow> string \<Rightarrow> 'g world \<times> outcome" where
  "send_email_confirmation env w email =
     (if smtp_configured env then
        (let w1 = log_call (SmtpSend email) w in
         case smtp_send env email of
           None \<Rightarrow>
             (w1, \<lparr>o_success = True, o_error = None,
                   o_message = ''Email de confirmation envoy'' @ e_acute @ '' '' @ a_grave
                     @ '' '' @ email\<rparr>)
         | Some e \<Rightarrow>
             (w1, \<lparr>o_success = False, o_error = Some e,
                   o_message = ''Erreur lors de l'' @ apostrophe
                     @ ''envoi de l'' @ apostrophe @ ''email de confirmation''\<rparr>))
      else
        (w, \<lparr>o_success = False, o_error = None,
             o_message = ''Configuration email incompl'' @ e_grave @ ''te''\<rparr>))"

text \<open>
  \<^verbatim>\<open>
  if not phone.startswith('+'):
      if phone.startswith('0'):
          phone = '+33' + phone[1:]
      else:
          phone = '+33' + phone
  \<close>
\<close>

definition format_phone :: "string \<Rightarrow> string" where
  "format_phone phone =
     (if \<not> startswith phone CHR ''+'' then
        (if startswith phone CHR ''0'' then ''+33'' @ drop 1 phone else ''+33'' @ phone)
      else phone)"

definition send_sms_confirmation ::
  "'g env \<Rightarrow> 'g world \<Rightarrow> string \<Rightarrow> 'g world \<times> outcome" where
  "send_sms_confirmation env w phone =
     (if \<not> twilio_configured env then
        (w, \<lparr>o_success = False, o_error = None,
             o_message = ''Configuration SMS non disponible''\<rparr>)
      else
        let phone1 = format_phone phone;
            w1 = log_call (TwilioPost phone1) w
        in case twilio_post env phone1 of
             Inr status \<Rightarrow>
               if status = 201 then
                 (w1, \<lparr>o_success = True, o_error = None,
                       o_message = ''SMS de confirmation envoy'' @ e_acute @ '' au ''
                         @ phone1\<rparr>)
               else
                 (w1, \<lparr>o_success = False, o_error = None,
                       o_message = ''Erreur lors de l'' @ apostrophe @ ''envoi du SMS''\<rparr>)
           | Inl e \<Rightarrow>
               (w1, \<lparr>o_success = False, o_error = Some e,
                     o_message = ''Erreur lors de l'' @ apostrophe
                       @ ''envoi du SMS de confirmation''\<rparr>))"

record notice_result =
  n_success :: bool
  n_email :: outcome
  n_sms :: outcome
  n_message :: string

definition send_cancellation_notice ::
  "'g env \<Rightarrow> 'g world \<Rightarrow> string \<Rightarrow> string \<Rightarrow> 'g world \<times> notice_result" where
  "send_cancellation_notice env w email phone =
     (case send_email_confirmation env w email of
        (w1, email_result) \<Rightarrow>
          (case send_sms_confirmation env w1 phone of
             (w2, sms_result) \<Rightarrow>
               (w2, \<lparr>n_success = (o_success email_result \<or> o_success sms_result),
                     n_email = email_result, n_sms = sms_result,
                     n_message = ''Avis d'' @ apostrophe @ ''annulation envoy'' @ e_acute\<rparr>)))"

section \<open>\<open>CalendarManager.book_appointment\<close> and \<open>cancel_appointment\<close>\<close>

fun join :: "string \<Rightarrow> string list \<Rightarrow> string" where
  "join sep [] = []"
| "join sep [x] = x"
| "join sep (x # y # ys) = x @ sep @ join sep (y # ys)"

definition make_event ::
  "string \<Rightarrow> string \<Rightarrow> string \<Rightarrow> string \<Rightarrow> string option \<Rightarrow> int \<Rightarrow> int \<Rightarrow> event_body" where
  "make_event name email phone service_name notes start_datetime end_datetime =
     \<lparr>summary = service_name @ '' - '' @ name,
      description = ''Rendez-vous avec '' @ name @ [CHR 0x0A]
        @ ''Service: '' @ service_name @ [CHR 0x0A]
        @ ''T'' @ e_acute @ ''l'' @ e_acute @ ''phone: '' @ phone @ [CHR 0x0A]
        @ ''Email: '' @ email @ [CHR 0x0A]
        @ (case notes of None \<Rightarrow> [] | Some n \<Rightarrow> if n \<noteq> [] then ''Notes: '' @ n else []),
      start_dateTime = start_datetime,
      end_dateTime = end_datetime,
      timeZone = ''Europe/Paris'',
      attendees = [(email, name)],
      extendedProperties = [(''patient_name'', name), (''patient_phone'', phone),
                            (''service_type'', service_name)],
      sendUpdates = ''all''\<rparr>"

record booking_details =
  d_name :: string
  d_date :: string
  d_time :: string
  d_service :: string
  d_duration :: string

record booking_result =
  success :: bool
  event_id :: "string option"
  event_link :: "string option"
  message :: string
  reason :: "string option"
  error :: "string option"
  details :: "booking_details option"
  notifications :: "(outcome \<times> outcome) option"

definition booking_failure :: "string \<Rightarrow> string option \<Rightarrow> string option \<Rightarrow> booking_result" where
  "booking_failure msg rsn err =
     \<lparr>success = False, event_id = None, event_link = None, message = msg, reason = rsn,
      error = err, details = None, notifications = None\<rparr>"

definition booking_exception :: "exn \<Rightarrow> booking_result" where
  "booking_exception e =
     booking_failure (''D'' @ e_acute @ ''sol'' @ e_acute @ '', impossible de r'' @ e_acute
       @ ''server ce rendez-vous. Veuillez r'' @ e_acute @ ''essayer.'') None (Some e)"

definition notification_message :: "outcome \<Rightarrow> outcome \<Rightarrow> string" where
  "notification_message email_result sms_result =
     (let notifications_sent =
            (if o_success email_result then [''email''] else [])
            @ (if o_success sms_result then [''SMS''] else [])
      in if notifications_sent \<noteq> [] then
           '' Confirmations envoy'' @ e_acute @ ''es par '' @ join '' et '' notifications_sent
           @ ''.''
         else '' Rendez-vous cr'' @ e_acute @ e_acute @ '' (notifications '' @ a_grave
           @ '' configurer).'')"

definition book_appointment ::
  "'g env \<Rightarrow> 'g world \<Rightarrow> string \<Rightarrow> string \<Rightarrow> string \<Rightarrow> string \<Rightarrow> string \<Rightarrow> string
     \<Rightarrow> string option \<Rightarrow> 'g world \<times> booking_result" where
  "book_appointment env w name email phone date time service_name notes =
     (let w1 = ensure_service env w in
      if \<not> service w1 then
        (w1, booking_failure (''Impossible de r'' @ e_acute
               @ ''server le rendez-vous pour le moment.'')
               None (Some ''Calendar service not available''))
      else
        case check_availability env w1 date time of
          (w2, availability) \<Rightarrow>
            if \<not> available availability then
              (w2, booking_failure (a_message availability)
                     (Some ''time_slot_unavailable'') None)
            else
              (case strptime env date time of
                 Inl e \<Rightarrow> (w2, booking_exception e)
               | Inr start_datetime \<Rightarrow>
                 (case add_minutes start_datetime (APPOINTMENT_DURATION env) of
                    Inl e \<Rightarrow> (w2, booking_exception e)
                  | Inr end_datetime \<Rightarrow>
                   let event = make_event name email phone service_name notes
                                 start_datetime end_datetime;
                       w3 = log_call (InsertCall event) w2
                   in case events_insert env (cal w3) event of
                        Inl e \<Rightarrow> (w3, booking_exception e)
                      | Inr (created, g) \<Rightarrow>
                          (case send_email_confirmation env (w3\<lparr>cal := g\<rparr>) email of
                             (w5, email_result) \<Rightarrow>
                               (case (if phone \<noteq> [] then send_sms_confirmation env w5 phone
                                      else (w5, \<lparr>o_success = False, o_error = None,
                                             o_message = ''SMS non configur'' @ e_acute\<rparr>)) of
                                  (w6, sms_result) \<Rightarrow>
                                    (w6,
                                     \<lparr>success = True,
                                      event_id = Some (created_id created),
                                      event_link = Some (case htmlLink created of
                                                           None \<Rightarrow> [] | Some l \<Rightarrow> l),
                                      message = ''Parfait ! Votre rendez-vous est confirm''
                                        @ e_acute @ '' le '' @ date @ '' '' @ a_grave @ '' ''
                                        @ time @ ''.''
                                        @ notification_message email_result sms_result,
                                      reason = None, error = None,
                                      details = Some \<lparr>d_name = name, d_date = date,
                                        d_time = time, d_service = service_name,
                                        d_duration = str_int (APPOINTMENT_DURATION env)
                                          @ '' minutes''\<rparr>,
                                      notifications = Some (email_result, sms_result)\<rparr>))))))"

record cancel_result =
  c_success :: bool
  c_error :: "string option"
  c_message :: string

definition cancel_appointment ::
  "'g env \<Rightarrow> 'g world \<Rightarrow> string \<Rightarrow> string option \<Rightarrow> 'g world \<times> cancel_result" where
  "cancel_appointment env w eid cancel_reason =
     (let w1 = ensure_service env w in
      if \<not> service w1 then
        (w1, \<lparr>c_success = False, c_error = None,
              c_message = ''Service calendrier non disponible.''\<rparr>)
      else
        let w2 = log_call (DeleteCall eid) w1
        in case events_delete env (cal w2) eid of
             Inr g \<Rightarrow>
               (w2\<lparr>cal := g\<rparr>,
                \<lparr>c_success = True, c_error = None,
                 c_message = ''Votre rendez-vous a '' @ e_acute @ ''t'' @ e_acute
                   @ '' annul'' @ e_acute @ '' avec succ'' @ e_grave
                   @ ''s. Vous recevrez une confirmation par email.''\<rparr>)
           | Inl e \<Rightarrow>
               (w2, \<lparr>c_success = False, c_error = Some e,
                     c_message = ''Impossible d'' @ apostrophe
                       @ ''annuler ce rendez-vous. Veuillez contacter notre ''
                       @ e_acute @ ''quipe.''\<rparr>))"

section \<open>\<^verbatim>\<open>src/agent.py\<close>: the English agent's \<open>CalendarManager\<close>\<close>

text \<open>
  The methods of this class do not call \<open>initialize\<close>; the agent does when it enters the
  conversation. Its dictionaries carry fewer keys: the absent ones are \<open>None\<close> here.
\<close>

definition agent_check_availability ::
  "'g env \<Rightarrow> 'g world \<Rightarrow> string \<Rightarrow> string \<Rightarrow> 'g world \<times> availability" where
  "agent_check_availability env w date time =
     (if \<not> service w then
        (w, \<lparr>available = True, conflicting_events = None, a_error = None,
             a_message = ''The slot on '' @ date @ '' at '' @ time
               @ '' is available! (Demo mode - calendar not configured)''\<rparr>)
      else
        let unverified = (\<lambda>e. \<lparr>available = True, conflicting_events = None, a_error = None,
              a_message = ''The slot on '' @ date @ '' at '' @ time
                @ '' appears available. (Unable to verify - '' @ e @ '')''\<rparr>) in
        case strptime env date time of
          Inl e \<Rightarrow> (w, unverified e)
        | Inr start_datetime \<Rightarrow>
            (case add_minutes start_datetime (APPOINTMENT_DURATION env) of
               Inl e \<Rightarrow> (w, unverified e)
             | Inr end_datetime \<Rightarrow>
                 let w2 = log_call (ListCall (UTC start_datetime) (UTC end_datetime)) w
                 in case events_list env (cal w2) (UTC start_datetime) (UTC end_datetime) of
                      Inl e \<Rightarrow> (w2, unverified e)
                    | Inr events \<Rightarrow>
                        if events \<noteq> [] then
                          (w2, \<lparr>available = False, conflicting_events = None,
                                a_error = None,
                                a_message =
                                  ''Sorry, that time slot is not available. There are ''
                                  @ str_nat (length events)
                                  @ '' appointments already scheduled.''\<rparr>)
                        else
                          (w2, \<lparr>available = True, conflicting_events = None,
                                a_error = None,
                                a_message = ''Perfect! The slot on '' @ date @ '' at ''
                                  @ time @ '' is available.''\<rparr>)))"

fun agent_check_slots ::
  "'g env \<Rightarrow> 'g world \<Rightarrow> string \<Rightarrow> string list \<Rightarrow> 'g world \<times> string list" where
  "agent_check_slots env w date [] = (w, [])"
| "agent_check_slots env w date (time_slot # rest) =
     (case agent_check_availability env w date time_slot of
        (w1, availability) \<Rightarrow>
          (case agent_check_slots env w1 date rest of
             (w2, found) \<Rightarrow>
               (w2, if available availability then time_slot # found else found)))"

definition demo_slots :: "string list" where
  "demo_slots = [''09:00'', ''09:30'', ''10:00'', ''10:30'', ''11:00'', ''11:30'',
                 ''14:00'', ''14:30'', ''15:00'', ''15:30'', ''16:00'', ''16:30'']"

definition agent_get_available_slots ::
  "'g env \<Rightarrow> 'g world \<Rightarrow> string \<Rightarrow> 'g world \<times> slots_result" where
  "agent_get_available_slots env w date =
     (if \<not> service w then
        (w, \<lparr>s_date = None, slots = demo_slots, s_count = None, s_error = None,
             s_message = ''Available slots for '' @ date @ '': '' @ join '', '' demo_slots
               @ '' (Demo mode)''\<rparr>)
      else
        case all_slots (BUSINESS_HOURS env) of
          Inl e \<Rightarrow>
            (w, \<lparr>s_date = None, slots = [''09:00'', ''10:30'', ''14:00'', ''15:30''],
                 s_count = None, s_error = None,
                 s_message = ''Available slots for '' @ date
                   @ '': 09:00, 10:30, 14:00, 15:30 (Error checking calendar: '' @ e
                   @ '')''\<rparr>)
        | Inr candidates \<Rightarrow>
            (case agent_check_slots env w date candidates of
               (w2, available_slots) \<Rightarrow>
                 (w2, \<lparr>s_date = None, slots = available_slots, s_count = None,
                       s_error = None,
                       s_message = ''Available slots for '' @ date @ '': ''
                         @ (if available_slots \<noteq> [] then join '', '' available_slots
                            else ''No slots available'')\<rparr>)))"

definition agent_send_email_confirmation ::
  "'g env \<Rightarrow> 'g world \<Rightarrow> string \<Rightarrow> string \<Rightarrow> string \<Rightarrow> 'g world \<times> bool" where
  "agent_send_email_confirmation env w email date time =
     (if \<not> smtp_configured env then (w, False)
      else case strptime env date time of
             Inl e \<Rightarrow> (w, False)
           | Inr start_dt \<Rightarrow>
               (case add_minutes start_dt (APPOINTMENT_DURATION env) of
                  Inl e \<Rightarrow> (w, False)
                | Inr end_dt \<Rightarrow>
                    (let w1 = log_call (SmtpSend email) w in
                     case smtp_send env email of
                       None \<Rightarrow> (w1, True)
                     | Some e \<Rightarrow> (w1, False))))"

definition agent_make_event ::
  "string \<Rightarrow> string \<Rightarrow> string \<Rightarrow> string \<Rightarrow> string option \<Rightarrow> int \<Rightarrow> int \<Rightarrow> event_body" where
  "agent_make_event name email phone service_name notes start_datetime end_datetime =
     \<lparr>summary = service_name @ '' - '' @ name,
      description = ''Appointment with '' @ name @ [CHR 0x0A]
        @ ''Service: '' @ service_name @ [CHR 0x0A]
        @ ''Phone: '' @ phone @ [CHR 0x0A]
        @ ''Email: '' @ email @ [CHR 0x0A]
        @ (case notes of None \<Rightarrow> [] | Some n \<Rightarrow> if n \<noteq> [] then ''Notes: '' @ n else []),
      start_dateTime = start_datetime,
      end_dateTime = end_datetime,
      timeZone = ''UTC'',
      attendees = [],
      extendedProperties = [],
      sendUpdates = ''none''\<rparr>"

definition agent_demo_message :: "string \<Rightarrow> string \<Rightarrow> string \<Rightarrow> string \<Rightarrow> string" where
  "agent_demo_message service_name date time email =
     ''Perfect! I'' @ apostrophe @ ''ve booked your '' @ service_name @ '' appointment for ''
     @ date @ '' at '' @ time @ ''. You'' @ apostrophe
     @ ''ll receive a confirmation email at '' @ email
     @ ''. (Demo mode - not actually booked)''"

definition agent_booking_exception :: booking_result where
  "agent_booking_exception =
     booking_failure (''Sorry, I couldn'' @ apostrophe
       @ ''t book that appointment. Please try again or contact us directly.'') None None"

definition agent_book_appointment ::
  "'g env \<Rightarrow> 'g world \<Rightarrow> string \<Rightarrow> string \<Rightarrow> string \<Rightarrow> string \<Rightarrow> string \<Rightarrow> string
     \<Rightarrow> string option \<Rightarrow> 'g world \<times> booking_result" where
  "agent_book_appointment env w name email phone date time service_name notes =
     (if \<not> service w then
        (w, \<lparr>success = True, event_id = None, event_link = None,
             message = agent_demo_message service_name date time email,
             reason = None, error = None, details = None, notifications = None\<rparr>)
      else
        case agent_check_availability env w date time of
          (w2, availability) \<Rightarrow>
            if \<not> available availability then
              (w2, booking_failure (a_message availability) None None)
            else
              (case strptime env date time of
                 Inl e \<Rightarrow> (w2, agent_booking_exception)
               | Inr start_datetime \<Rightarrow>
                 (case add_minutes start_datetime (APPOINTMENT_DURATION env) of
                    Inl e \<Rightarrow> (w2, agent_booking_exception)
                  | Inr end_datetime \<Rightarrow>
                   let event = agent_make_event name email phone service_name notes
                                 start_datetime end_datetime;
                       w3 = log_call (InsertCall event) w2
                   in case events_insert env (cal w3) event of
                        Inl e \<Rightarrow> (w3, agent_booking_exception)
                      | Inr (created, g) \<Rightarrow>
                          (case agent_send_email_confirmation env (w3\<lparr>cal := g\<rparr>)
                                  email date time of
                             (w5, email_sent) \<Rightarrow>
                               (w5,
                                \<lparr>success = True,
                                 event_id = Some (created_id created),
                                 event_link = None,
                                 message = ''Perfect! Your '' @ service_name
                                   @ '' appointment is confirmed for '' @ date @ '' at ''
                                   @ time @ ''.''
                                   @ (if email_sent then '' Email confirmation sent!'' else [])
                                   @ '' See you then!'',
                                 reason = None, error = None, details = None,
                                 notifications = None\<rparr>)))))"

section \<open>A reference environment\<close>

text \<open>Calendar arithmetic: the day number of a civil date, counted from 1970-01-01.\<close>

definition is_leap :: "int \<Rightarrow> bool" where
  "is_leap y = (y mod 4 = 0 \<and> (y mod 100 \<noteq> 0 \<or> y mod 400 = 0))"

definition days_in_month :: "int \<Rightarrow> int \<Rightarrow> int" where
  "days_in_month y m =
     (if m = 2 then (if is_leap y then 29 else 28)
      else if m = 4 \<or> m = 6 \<or> m = 9 \<or> m = 11 then 30 else 31)"

definition days_from_civil :: "int \<Rightarrow> int \<Rightarrow> int \<Rightarrow> int" where
  "days_from_civil y m d =
     (let y1 = (if m \<le> 2 then y - 1 else y);
          era = y1 div 400;
          yoe = y1 - era * 400;
          doy = (153 * (if m > 2 then m - 3 else m + 9) + 2) div 5 + d - 1;
          doe = yoe * 365 + yoe div 4 - yoe div 100 + doy
      in era * 146097 + doe - 719468)"

definition year_of_day :: "int \<Rightarrow> int" where
  "year_of_day n =
     (let z = n + 719468;
          era = z div 146097;
          doe = z - era * 146097;
          yoe = (doe - doe div 1460 + doe div 36524 - doe div 146096) div 365;
          doy = doe - (365 * yoe + yoe div 4 - yoe div 100);
          mp = (5 * doy + 2) div 153;
          m = (if mp < 10 then mp + 3 else mp - 9)
      in yoe + era * 400 + (if m \<le> 2 then 1 else 0))"

text \<open>
  The zone \<open>Europe/Paris\<close>: one hour ahead of UTC, two hours in summer time, which runs
  from 03:00 on the last Sunday of March to 03:00 on the last Sunday of October (wall
  clock; the rule in force since 1996). Day \<open>n\<close> is a Sunday when \<open>(n + 4) mod 7 = 0\<close>.
\<close>

definition last_sunday :: "int \<Rightarrow> int \<Rightarrow> int" where
  "last_sunday y m = (let d = days_from_civil y m 31 in d - (d + 4) mod 7)"

definition europe_paris_offset :: "int \<Rightarrow> int" where
  "europe_paris_offset wall =
     (let y = year_of_day (wall div 1440)
      in if last_sunday y 3 * 1440 + 180 \<le> wall \<and> wall < last_sunday y 10 * 1440 + 180
         then 120 else 60)"

definition to_instant :: "string \<Rightarrow> int \<Rightarrow> int" where
  "to_instant zone wall =
     (if zone = ''Europe/Paris'' then wall - europe_paris_offset wall else wall)"

text \<open>
  Modelled from the spec: the calendar store behind the gateway (Google Calendar, not code
  of the repository), as section 4.4 of the specification requires it: \<open>list_events\<close>
  returns the events whose interval intersects the half-open range asked for,
  \<open>create_event\<close> stores the event under a fresh id, \<open>delete_event\<close> answers not-found for
  an id it does not hold, which the client library raises as an exception. The store
  keeps the instants of an event: the wall clock of the inserted body read in the body's
  \<open>timeZone\<close>. The two zones the code writes are \<open>Europe/Paris\<close> (\<^verbatim>\<open>calendar.py\<close>) and
  \<open>UTC\<close> (\<^verbatim>\<open>agent.py\<close>).
\<close>

definition intersects :: "int \<Rightarrow> int \<Rightarrow> int \<Rightarrow> int \<Rightarrow> bool" where
  "intersects a b c d = (max a c < min b d)"

record gstate =
  next_id :: nat
  evs :: "cal_event list"

fun ref_list :: "gstate \<Rightarrow> stamp \<Rightarrow> stamp \<Rightarrow> exn + cal_event list" where
  "ref_list g (UTC time_min) (UTC time_max) =
     Inr (filter (\<lambda>e. intersects (ev_start e) (ev_end e) time_min time_max) (evs g))"

definition ref_insert :: "gstate \<Rightarrow> event_body \<Rightarrow> exn + (created_event \<times> gstate)" where
  "ref_insert g body =
     Inr (\<lparr>created_id = ''evt'' @ str_nat (next_id g), htmlLink = None\<rparr>,
          \<lparr>next_id = Suc (next_id g),
           evs = evs g @ [\<lparr>ev_id = ''evt'' @ str_nat (next_id g),
                           ev_start = to_instant (timeZone body) (start_dateTime body),
                           ev_end = to_instant (timeZone body) (end_dateTime body)\<rparr>]\<rparr>)"

definition ref_delete :: "gstate \<Rightarrow> string \<Rightarrow> exn + gstate" where
  "ref_delete g eid =
     (if eid \<in> set (map ev_id (evs g))
      then Inr (g\<lparr>evs := filter (\<lambda>e. ev_id e \<noteq> eid) (evs g)\<rparr>)
      else Inl ''HttpError 404: Not Found'')"

text \<open>
  A reference \<open>strptime\<close> for the format \<open>%Y-%m-%d %H:%M\<close>: it accepts the spellings the
  docstrings name (\<open>YYYY-MM-DD\<close>, \<open>HH:MM\<close>, fields of one or two digits) and returns the
  wall clock in minutes since 1970-01-01 00:00. It serves the concrete instances only.
\<close>

definition digits_field :: "nat \<Rightarrow> nat \<Rightarrow> string \<Rightarrow> int option" where
  "digits_field lo hi s =
     (if lo \<le> length s \<and> length s \<le> hi \<and> list_all is_digit s
      then map_option int (int_unsigned s) else None)"

definition strptime_ref :: "string \<Rightarrow> string \<Rightarrow> exn + int" where
  "strptime_ref date time =
     (case (split CHR ''-'' date, split CHR '':'' time) of
        ([y, m, d], [h, mi]) \<Rightarrow>
          (case (digits_field 4 4 y, digits_field 1 2 m, digits_field 1 2 d,
                 digits_field 1 2 h, digits_field 1 2 mi) of
             (Some yy, Some mm, Some dd, Some hh, Some mn) \<Rightarrow>
               if 1 \<le> yy \<and> 1 \<le> mm \<and> mm \<le> 12 \<and> 1 \<le> dd \<and> dd \<le> days_in_month yy mm
                  \<and> hh \<le> 23 \<and> mn \<le> 59
               then Inr ((days_from_civil yy mm dd * 24 + hh) * 60 + mn)
               else Inl ''time data does not match format''
           | _ \<Rightarrow> Inl ''time data does not match format'')
      | _ \<Rightarrow> Inl ''time data does not match format'')"

definition office_env :: "gstate env" where
  "office_env =
     \<lparr>BUSINESS_HOURS = ''09:00-17:00'', APPOINTMENT_DURATION = 30,
      credentials_load = True, strptime = strptime_ref,
      events_list = ref_list, events_insert = ref_insert, events_delete = ref_delete,
      smtp_configured = True, smtp_send = (\<lambda>r. None),
      twilio_configured = True, twilio_post = (\<lambda>r. Inr 201)\<rparr>"

definition empty_world :: "gstate world" where
  "empty_world = \<lparr>service = False, cal = \<lparr>next_id = 1, evs = []\<rparr>, trace = []\<rparr>"

text \<open>
  A calendar that holds one appointment, 2025-12-10 from 14:00 to 14:30 UTC, with the
  service handle set; an environment whose list call times out; one whose mail and SMS
  transports both fail; and the world that \<open>book_appointment\<close> itself leaves behind after
  booking 2025-12-10 14:00 on the empty calendar.
\<close>

definition booked_world :: "gstate world" where
  "booked_world =
     \<lparr>service = True,
      cal = \<lparr>next_id = 2,
             evs = [\<lparr>ev_id = ''evt1'', ev_start = 29422920, ev_end = 29422950\<rparr>]\<rparr>,
      trace = []\<rparr>"

definition unreachable_env :: "gstate env" where
  "unreachable_env = office_env\<lparr>events_list := (\<lambda>g a b. Inl ''timed out'')\<rparr>"

definition silent_env :: "gstate env" where
  "silent_env = office_env\<lparr>smtp_send := (\<lambda>r. Some ''Connection refused''),
                           twilio_post := (\<lambda>r. Inr 500)\<rparr>"

definition once_booked_world :: "gstate world" where
  "once_booked_world =
     fst (book_appointment office_env empty_world ''Ann'' ''ann@example.org'' ''0612345678''
            ''2025-12-10'' ''14:00'' ''Consultation'' None)"

definition agent_once_booked_world :: "gstate world" where
  "agent_once_booked_world =
     fst (agent_book_appointment office_env (empty_world\<lparr>service := True\<rparr>) ''Ann''
            ''ann@example.org'' ''0612345678'' ''2025-12-10'' ''14:00'' ''Consultation'' None)"

text \<open>Reading the trace: which calls are notifications, which write to the calendar.\<close>

fun is_notification :: "call \<Rightarrow> bool" where
  "is_notification (SmtpSend r) = True"
| "is_notification (TwilioPost r) = True"
| "is_notification c = False"

fun is_write :: "call \<Rightarrow> bool" where
  "is_write (InsertCall b) = True"
| "is_write (DeleteCall i) = True"
| "is_write c = False"

section \<open>Basic facts about the service handle\<close>

lemma ensure_service_available:
  "service w \<or> credentials_load env \<Longrightarrow> service (ensure_service env w)"
  by (auto simp: ensure_service_def initialize_def)

lemma ensure_service_unavailable:
  "\<not> service w \<Longrightarrow> \<not> credentials_load env \<Longrightarrow> ensure_service env w = w"
  by (simp add: ensure_service_def initialize_def)

lemma ensure_service_trace: "trace (ensure_service env w) = trace w"
  by (simp add: ensure_service_def initialize_def)

lemma ensure_service_cal: "cal (ensure_service env w) = cal w"
  by (simp add: ensure_service_def initialize_def)


section \<open>Slot generation\<close>

text \<open>
  For any open hour before the close hour the enumeration has two slots for every hour but
  the last and one for the last: the guard drops the half-hour slot of the last hour.
\<close>

lemma minute_loop_length:
  "length (minute_loop hour end_hour [0, 30]) = (if hour = end_hour - 1 then 1 else 2)"
  by simp

lemma hour_loop_snoc:
  assumes "start_hour < end_hour"
  shows "[start_hour..end_hour - 1] = [start_hour..end_hour - 2] @ [end_hour - 1]"
  using upto_rec2 [of start_hour "end_hour - 1"] assms by (simp add: algebra_simps)

lemma sum_list_const2:
  "(\<And>x. x \<in> set xs \<Longrightarrow> f x = (2::nat)) \<Longrightarrow> sum_list (map f xs) = 2 * length xs"
  by (induction xs) auto

lemma hour_loop_length:
  assumes "start_hour < end_hour"
  shows "length (hour_loop start_hour end_hour) = nat (2 * (end_hour - start_hour) - 1)"
proof -
  have a: "sum_list (map (\<lambda>hour. length (minute_loop hour end_hour [0, 30]))
             [start_hour..end_hour - 2]) = 2 * length [start_hour..end_hour - 2]"
    by (rule sum_list_const2) auto
  have "length (hour_loop start_hour end_hour)
      = sum_list (map (\<lambda>hour. length (minute_loop hour end_hour [0, 30]))
          [start_hour..end_hour - 1])"
    by (simp add: hour_loop_def length_concat comp_def del: minute_loop.simps)
  also have "\<dots> = 2 * length [start_hour..end_hour - 2] + 1"
    unfolding hour_loop_snoc [OF assms] using a by simp
  also have "\<dots> = nat (2 * (end_hour - start_hour) - 1)"
    using assms by simp
  finally show ?thesis .
qed

text \<open>
  C1, as stated, fails: for business hours \<open>09:00-17:00\<close> the enumeration does not yield
  16 slots ending with \<open>16:30\<close>. The guard \<open>hour == end_hour - 1 and minute == 30\<close> leaves
  the loop before the half-hour slot of the last hour.
\<close>

theorem candidate_slots_0900_1700_counterexample:
  "\<not> (length (projr (all_slots ''09:00-17:00'')) = 16
      \<and> last (projr (all_slots ''09:00-17:00'')) = ''16:30'')"
  by code_simp

text \<open>
  C1, amended: for business hours \<open>09:00-17:00\<close> (and duration 30) the enumeration yields
  exactly 15 candidate slots, the first \<open>09:00\<close>, the last \<open>16:00\<close>, strictly ascending,
  none at or after 17:00 and none whose end exceeds the close hour; on an empty calendar
  \<open>get_available_slots\<close> returns all of them.
\<close>

theorem candidate_slots_0900_1700:
  "all_slots ''09:00-17:00'' =
     Inr [''09:00'', ''09:30'', ''10:00'', ''10:30'', ''11:00'', ''11:30'', ''12:00'',
          ''12:30'', ''13:00'', ''13:30'', ''14:00'', ''14:30'', ''15:00'', ''15:30'',
          ''16:00'']
   \<and> length (projr (all_slots ''09:00-17:00'')) = 15
   \<and> hd (projr (all_slots ''09:00-17:00'')) = ''09:00''
   \<and> last (projr (all_slots ''09:00-17:00'')) = ''16:00''
   \<and> map slot_minutes (projr (all_slots ''09:00-17:00'')) =
       map Some [540, 570, 600, 630, 660, 690, 720, 750, 780, 810, 840, 870, 900, 930, 960]
   \<and> sorted_wrt (<) [540, 570, 600, 630, 660, 690, 720, 750, 780, 810, 840, 870, 900, 930,
                      960 :: int]
   \<and> list_all (\<lambda>m. m + 30 \<le> 17 * 60 \<and> m < 17 * 60)
        [540, 570, 600, 630, 660, 690, 720, 750, 780, 810, 840, 870, 900, 930, 960 :: int]
   \<and> slots (snd (get_available_slots office_env empty_world ''2025-12-10'')) =
       projr (all_slots ''09:00-17:00'')"
  by code_simp



section \<open>SMS recipients\<close>

lemma startswith_format_phone: "startswith (format_phone phone) CHR ''+''"
  by (cases phone) (auto simp: format_phone_def startswith_def)

text \<open>
  C10: the number handed to the SMS endpoint is \<open>format_phone phone\<close>, which always starts
  with \<open>+\<close>: a number that starts with \<open>+\<close> is kept, a leading \<open>0\<close> is replaced by \<open>+33\<close>,
  and any other number gets \<open>+33\<close> prepended (it is taken to be French). Whenever the SMS
  transport is configured, the one POST of \<open>send_sms_confirmation\<close> goes to that number;
  otherwise nothing is sent.
\<close>

theorem sms_recipient_normalized:
  "startswith (format_phone phone) CHR ''+''
   \<and> format_phone (CHR ''+'' # rest) = CHR ''+'' # rest
   \<and> format_phone (CHR ''0'' # rest) = ''+33'' @ rest
   \<and> (\<not> startswith phone CHR ''+'' \<and> \<not> startswith phone CHR ''0''
        \<longrightarrow> format_phone phone = ''+33'' @ phone)
   \<and> (twilio_configured env \<longrightarrow>
        trace (fst (send_sms_confirmation env w phone))
          = trace w @ [TwilioPost (format_phone phone)])
   \<and> (\<not> twilio_configured env \<longrightarrow>
        trace (fst (send_sms_confirmation env w phone)) = trace w)"
  by (cases phone)
    (auto simp: format_phone_def startswith_def send_sms_confirmation_def Let_def log_call_def
      split: sum.splits)

theorem sms_recipient_normalized_witness:
  "format_phone ''0612345678'' = ''+33612345678''
   \<and> format_phone ''612345678'' = ''+33612345678''
   \<and> format_phone ''+4915112345678'' = ''+4915112345678''
   \<and> trace (fst (send_sms_confirmation office_env empty_world ''0612345678''))
       = [TwilioPost ''+33612345678'']
   \<and> trace (fst (send_sms_confirmation (office_env\<lparr>twilio_configured := False\<rparr>)
        empty_world ''0612345678'')) = []"
proof -
  have a: "twilio_configured office_env" by (simp add: office_env_def)
  have b: "\<not> twilio_configured (office_env\<lparr>twilio_configured := False\<rparr>)" by simp
  have c: "\<not> startswith ''612345678'' CHR ''+'' \<and> \<not> startswith ''612345678'' CHR ''0''"
    by (simp add: startswith_def)
  have t: "trace empty_world = []" by (simp add: empty_world_def)
  show ?thesis
    using sms_recipient_normalized [of "''612345678''" "''612345678''" office_env empty_world]
      sms_recipient_normalized [of "''0612345678''" "''4915112345678''" office_env empty_world]
      sms_recipient_normalized [of "''0612345678''" "''4915112345678''"
        "office_env\<lparr>twilio_configured := False\<rparr>" empty_world]
      a b c t
    by simp
qed

section \<open>The English agent's demo mode\<close>

text \<open>
  C9: in \<^verbatim>\<open>src/agent.py\<close>, when the calendar service is not configured,
  \<open>book_appointment\<close> returns success with the demo-mode message and nothing else: the
  world is returned as it was (no availability check, no event created, no mail), and the
  result carries neither an event id nor notification outcomes.
\<close>

theorem agent_demo_booking:
  assumes "\<not> service w"
  shows "agent_book_appointment env w name email phone date time service_name notes =
     (w, \<lparr>success = True, event_id = None, event_link = None,
          message = ''Perfect! I'' @ apostrophe @ ''ve booked your '' @ service_name
            @ '' appointment for '' @ date @ '' at '' @ time @ ''. You'' @ apostrophe
            @ ''ll receive a confirmation email at '' @ email
            @ ''. (Demo mode - not actually booked)'',
          reason = None, error = None, details = None, notifications = None\<rparr>)"
  using assms by (simp add: agent_book_appointment_def agent_demo_message_def)

theorem agent_demo_booking_witness:
  "\<not> service empty_world
   \<and> success (snd (agent_book_appointment office_env empty_world ''Ann'' ''ann@example.org''
        ''0612345678'' ''2025-12-10'' ''14:30'' ''Consultation'' None))
   \<and> event_id (snd (agent_book_appointment office_env empty_world ''Ann'' ''ann@example.org''
        ''0612345678'' ''2025-12-10'' ''14:30'' ''Consultation'' None)) = None
   \<and> notifications (snd (agent_book_appointment office_env empty_world ''Ann''
        ''ann@example.org'' ''0612345678'' ''2025-12-10'' ''14:30'' ''Consultation'' None)) = None
   \<and> fst (agent_book_appointment office_env empty_world ''Ann'' ''ann@example.org''
        ''0612345678'' ''2025-12-10'' ''14:30'' ''Consultation'' None) = empty_world"
proof -
  have h: "\<not> service empty_world" by (simp add: empty_world_def)
  show ?thesis
    using h agent_demo_booking [OF h, of office_env "''Ann''" "''ann@example.org''"
        "''0612345678''" "''2025-12-10''" "''14:30''" "''Consultation''" None]
    by simp
qed

section \<open>Cancellation\<close>

text \<open>
  C4, as stated, fails: against a store that answers not-found for an id it no longer
  holds, the second cancellation of the same event reports \<open>success = False\<close>.
\<close>

theorem cancel_twice_counterexample:
  "c_success (snd (cancel_appointment office_env booked_world ''evt1'' None))
   \<and> \<not> c_success (snd (cancel_appointment office_env
          (fst (cancel_appointment office_env booked_world ''evt1'' None)) ''evt1'' None))
   \<and> c_error (snd (cancel_appointment office_env
          (fst (cancel_appointment office_env booked_world ''evt1'' None)) ''evt1'' None))
       = Some ''HttpError 404: Not Found''"
  by code_simp

text \<open>
  C4, amended: \<open>cancel_appointment\<close> reports success exactly when the service is available
  and the gateway's delete call returns without raising; every exception of the delete
  call, a not-found or already-deleted answer included, is reported as \<open>success = False\<close>
  with the exception's text as error.
\<close>

theorem cancel_success_iff_delete_returns:
  "(c_success (snd (cancel_appointment env w eid cancel_reason))
      \<longleftrightarrow> (service w \<or> credentials_load env) \<and> \<not> isl (events_delete env (cal w) eid))
   \<and> ((service w \<or> credentials_load env) \<and> events_delete env (cal w) eid = Inl e
        \<longrightarrow> \<not> c_success (snd (cancel_appointment env w eid cancel_reason))
          \<and> c_error (snd (cancel_appointment env w eid cancel_reason)) = Some e)"
  by (auto simp: cancel_appointment_def ensure_service_def initialize_def Let_def log_call_def
      split: sum.splits)

theorem cancel_success_iff_delete_returns_witness:
  "c_success (snd (cancel_appointment office_env booked_world ''evt1'' None))
   \<and> events_delete office_env (cal booked_world) ''evt2'' = Inl ''HttpError 404: Not Found''
   \<and> \<not> c_success (snd (cancel_appointment office_env booked_world ''evt2'' None))
   \<and> c_error (snd (cancel_appointment office_env booked_world ''evt2'' None))
       = Some ''HttpError 404: Not Found''"
proof -
  have s: "service booked_world" by (simp add: booked_world_def)
  have d1: "\<not> isl (events_delete office_env (cal booked_world) ''evt1'')" by code_simp
  have d2: "events_delete office_env (cal booked_world) ''evt2'' = Inl ''HttpError 404: Not Found''"
    by code_simp
  show ?thesis
    using cancel_success_iff_delete_returns [of office_env booked_world "''evt1''" None "''x''"]
      cancel_success_iff_delete_returns [of office_env booked_world "''evt2''" None
        "''HttpError 404: Not Found''"] s d1 d2
    by simp
qed

text \<open>
  C6, as stated, fails: with both channels configured and the deletion successful,
  \<open>cancel_appointment\<close> makes one external call, the delete, and no notification call.
\<close>

theorem cancel_sends_no_notice_counterexample:
  "c_success (snd (cancel_appointment office_env booked_world ''evt1'' (Some ''ill'')))
   \<and> smtp_configured office_env \<and> twilio_configured office_env
   \<and> trace (fst (cancel_appointment office_env booked_world ''evt1'' (Some ''ill'')))
       = [DeleteCall ''evt1'']
   \<and> \<not> list_ex is_notification
         (trace (fst (cancel_appointment office_env booked_world ''evt1'' (Some ''ill''))))"
  by code_simp

text \<open>
  C6, amended: \<open>cancel_appointment\<close> itself sends nothing through the email or SMS channel
  (it asks the calendar store to notify the attendees, \<open>sendUpdates = all\<close>): its only
  external call is the delete, so its result does not depend on either channel.
  \<open>send_cancellation_notice\<close>, which \<open>cancel_appointment\<close> does not call, attempts the
  email and then the SMS whenever both are configured, whatever the email's outcome.
\<close>

theorem cancel_notifies_through_calendar_only:
  "(service w \<or> credentials_load env \<longrightarrow>
      trace (fst (cancel_appointment env w eid cancel_reason)) = trace w @ [DeleteCall eid])
   \<and> (\<not> service w \<and> \<not> credentials_load env \<longrightarrow>
      trace (fst (cancel_appointment env w eid cancel_reason)) = trace w)
   \<and> filter is_notification (trace (fst (cancel_appointment env w eid cancel_reason)))
       = filter is_notification (trace w)
   \<and> cancel_appointment
        (env\<lparr>smtp_configured := sc, smtp_send := ss, twilio_configured := tc,
             twilio_post := tp\<rparr>) w eid cancel_reason
       = cancel_appointment env w eid cancel_reason
   \<and> (smtp_configured env \<and> twilio_configured env \<longrightarrow>
        trace (fst (send_cancellation_notice env w email phone))
          = trace w @ [SmtpSend email, TwilioPost (format_phone phone)])"
  by (auto simp: cancel_appointment_def ensure_service_def initialize_def Let_def log_call_def
      send_cancellation_notice_def send_email_confirmation_def send_sms_confirmation_def
      split: sum.splits option.splits)

theorem cancel_notifies_through_calendar_only_witness:
  "trace (fst (cancel_appointment office_env booked_world ''evt1'' None)) = [DeleteCall ''evt1'']
   \<and> trace (fst (cancel_appointment (office_env\<lparr>credentials_load := False\<rparr>) empty_world
        ''evt1'' None)) = []
   \<and> cancel_appointment silent_env booked_world ''evt1'' None
       = cancel_appointment office_env booked_world ''evt1'' None
   \<and> trace (fst (send_cancellation_notice silent_env booked_world ''ann@example.org''
        ''0612345678'')) = [SmtpSend ''ann@example.org'', TwilioPost ''+33612345678'']"
proof -
  have s: "service booked_world" "trace booked_world = []" by (simp_all add: booked_world_def)
  have n: "\<not> service empty_world" "trace empty_world = []"
    "\<not> credentials_load (office_env\<lparr>credentials_load := False\<rparr>)"
    by (simp_all add: empty_world_def)
  have e: "silent_env = office_env\<lparr>smtp_configured := True,
      smtp_send := (\<lambda>r. Some ''Connection refused''), twilio_configured := True,
      twilio_post := (\<lambda>r. Inr 500)\<rparr>"
    by (simp add: silent_env_def office_env_def)
  have c: "smtp_configured silent_env \<and> twilio_configured silent_env"
    by (simp add: silent_env_def office_env_def)
  have f: "format_phone ''0612345678'' = ''+33612345678''" by code_simp
  show ?thesis
    using cancel_notifies_through_calendar_only [where w = booked_world and env = office_env
        and eid = "''evt1''" and cancel_reason = None and sc = True
        and ss = "\<lambda>r. Some ''Connection refused''" and tc = True and tp = "\<lambda>r. Inr 500"
        and email = "''a''" and phone = "''0''"]
      cancel_notifies_through_calendar_only [where w = empty_world
        and env = "office_env\<lparr>credentials_load := False\<rparr>"
        and eid = "''evt1''" and cancel_reason = None and sc = True
        and ss = "\<lambda>r. None" and tc = True and tp = "\<lambda>r. Inr 201"
        and email = "''a''" and phone = "''0''"]
      cancel_notifies_through_calendar_only [where w = booked_world and env = silent_env
        and eid = "''evt1''" and cancel_reason = None and sc = True
        and ss = "\<lambda>r. None" and tc = True and tp = "\<lambda>r. Inr 201"
        and email = "''ann@example.org''" and phone = "''0612345678''"]
      s n e c f
    by simp
qed

section \<open>Availability check and booking when the gateway cannot answer\<close>

lemma log_call_simps [simp]:
  "trace (log_call c w) = trace w @ [c]" "cal (log_call c w) = cal w"
  "service (log_call c w) = service w"
  by (simp_all add: log_call_def)

lemma ensure_service_idem: "service w \<Longrightarrow> ensure_service env w = w"
  by (simp add: ensure_service_def)

lemma check_availability_unavailable:
  assumes "\<not> service w" "\<not> credentials_load env"
  shows "check_availability env w date time =
     (w, \<lparr>available = False, conflicting_events = None,
          a_error = Some ''Calendar service not available'',
          a_message = ''Impossible de v'' @ e_acute @ ''rifier les disponibilit''
            @ e_acute @ ''s pour le moment.''\<rparr>)"
  using assms by (simp add: check_availability_def ensure_service_unavailable)

lemma check_availability_overflow:
  assumes "service w \<or> credentials_load env"
    and "strptime env date time = Inr s"
    and "add_minutes s (APPOINTMENT_DURATION env) = Inl e"
  shows "check_availability env w date time =
     (ensure_service env w,
      \<lparr>available = False, conflicting_events = None, a_error = Some e,
       a_message = ''Impossible de v'' @ e_acute @ ''rifier les disponibilit''
         @ e_acute @ ''s. Veuillez r'' @ e_acute @ ''essayer.''\<rparr>)"
  using assms ensure_service_available [OF assms(1)]
  by (simp add: check_availability_def Let_def)

lemma check_availability_list_raises:
  assumes "service w \<or> credentials_load env"
    and "strptime env date time = Inr s"
    and "add_minutes s (APPOINTMENT_DURATION env) = Inr t"
    and "events_list env (cal w) (UTC s) (UTC t) = Inl e"
  shows "check_availability env w date time =
     (log_call (ListCall (UTC s) (UTC t)) (ensure_service env w),
      \<lparr>available = False, conflicting_events = None, a_error = Some e,
       a_message = ''Impossible de v'' @ e_acute @ ''rifier les disponibilit''
         @ e_acute @ ''s. Veuillez r'' @ e_acute @ ''essayer.''\<rparr>)"
  using assms ensure_service_available [OF assms(1)]
  by (simp add: check_availability_def Let_def ensure_service_cal)

lemma check_availability_listed:
  assumes "service w \<or> credentials_load env"
    and "strptime env date time = Inr s"
    and "add_minutes s (APPOINTMENT_DURATION env) = Inr t"
    and "events_list env (cal w) (UTC s) (UTC t) = Inr events"
  shows "check_availability env w date time =
     (log_call (ListCall (UTC s) (UTC t)) (ensure_service env w),
      if events \<noteq> [] then
        \<lparr>available = False, conflicting_events = Some (length events), a_error = None,
         a_message = msg_slot_taken (length events)\<rparr>
      else
        \<lparr>available = True, conflicting_events = None, a_error = None,
         a_message = msg_slot_free date time\<rparr>)"
  using assms ensure_service_available [OF assms(1)]
  by (simp add: check_availability_def Let_def ensure_service_cal)

lemma agent_check_availability_list_raises:
  assumes "service w"
    and "strptime env date time = Inr s"
    and "add_minutes s (APPOINTMENT_DURATION env) = Inr t"
    and "events_list env (cal w) (UTC s) (UTC t) = Inl e"
  shows "agent_check_availability env w date time =
     (log_call (ListCall (UTC s) (UTC t)) w,
      \<lparr>available = True, conflicting_events = None, a_error = None,
       a_message = ''The slot on '' @ date @ '' at '' @ time
         @ '' appears available. (Unable to verify - '' @ e @ '')''\<rparr>)"
  using assms by (simp add: agent_check_availability_def Let_def)

lemma agent_send_email_confirmation_result:
  assumes "strptime env date time = Inr s"
    and "add_minutes s (APPOINTMENT_DURATION env) = Inr t"
  shows "snd (agent_send_email_confirmation env w email date time)
           = (smtp_configured env \<and> smtp_send env email = None)"
    and "cal (fst (agent_send_email_confirmation env w email date time)) = cal w"
    and "trace (fst (agent_send_email_confirmation env w email date time))
           = trace w @ (if smtp_configured env then [SmtpSend email] else [])"
  using assms
  by (auto simp: agent_send_email_confirmation_def Let_def split: option.splits)

text \<open>
  C2, as stated, fails on \<^verbatim>\<open>src/agent.py\<close>: with no calendar configured its availability
  check reports the slot available and its booking reports success; with a calendar whose
  list call times out its availability check still reports the slot available, and its
  booking goes on to insert the event and reports success, here on a slot that is taken.
\<close>

theorem fail_closed_in_calendar_py_only_counterexample:
  "\<not> service empty_world
   \<and> available (snd (agent_check_availability office_env empty_world ''2025-12-10'' ''14:30''))
   \<and> success (snd (agent_book_appointment office_env empty_world ''Ann'' ''ann@example.org''
        ''0612345678'' ''2025-12-10'' ''14:30'' ''Consultation'' None))
   \<and> events_list unreachable_env (cal booked_world) (UTC 29422920) (UTC 29422950)
       = Inl ''timed out''
   \<and> available (snd (agent_check_availability unreachable_env booked_world
        ''2025-12-10'' ''14:00''))
   \<and> success (snd (agent_book_appointment unreachable_env booked_world ''Ann''
        ''ann@example.org'' ''0612345678'' ''2025-12-10'' ''14:00'' ''Consultation'' None))
   \<and> evs (cal (fst (agent_book_appointment unreachable_env booked_world ''Ann''
        ''ann@example.org'' ''0612345678'' ''2025-12-10'' ''14:00'' ''Consultation'' None)))
       = [\<lparr>ev_id = ''evt1'', ev_start = 29422920, ev_end = 29422950\<rparr>,
          \<lparr>ev_id = ''evt2'', ev_start = 29422920, ev_end = 29422950\<rparr>]"
  by code_simp

text \<open>
  C2, amended: in \<^verbatim>\<open>src/agent/tools/calendar.py\<close>, for every date and time, if the calendar
  is unconfigured or its list call raises, \<open>check_availability\<close> returns
  \<open>available = False\<close> with an error and \<open>book_appointment\<close> returns \<open>success = False\<close>
  without creating an event. In \<^verbatim>\<open>src/agent.py\<close> the slot is reported available instead,
  with a message labelled \<open>Demo mode - calendar not configured\<close> (unconfigured) or
  \<open>Unable to verify\<close> (list call raised); an unconfigured booking is reported successful
  with a message labelled \<open>Demo mode - not actually booked\<close>; and a booking whose list
  call raised goes on to the insert: it fails when the insert raises too, and when the
  insert returns it is reported successful with the ordinary confirmation message.
\<close>

theorem fail_closed_in_calendar_py_only:
  "(\<not> service w \<and> \<not> credentials_load env \<longrightarrow>
      \<not> available (snd (check_availability env w date time))
      \<and> a_error (snd (check_availability env w date time))
          = Some ''Calendar service not available''
      \<and> \<not> success (snd (book_appointment env w name email phone date time service_name remark))
      \<and> error (snd (book_appointment env w name email phone date time service_name remark))
          = Some ''Calendar service not available''
      \<and> fst (book_appointment env w name email phone date time service_name remark) = w)
   \<and> ((service w \<or> credentials_load env) \<and> strptime env date time = Inr s
       \<and> add_minutes s (APPOINTMENT_DURATION env) = Inr t
       \<and> events_list env (cal w) (UTC s) (UTC t) = Inl e \<longrightarrow>
      \<not> available (snd (check_availability env w date time))
      \<and> a_error (snd (check_availability env w date time)) = Some e
      \<and> \<not> success (snd (book_appointment env w name email phone date time service_name remark))
      \<and> message (snd (book_appointment env w name email phone date time service_name remark))
          = a_message (snd (check_availability env w date time))
      \<and> trace (fst (book_appointment env w name email phone date time service_name remark))
          = trace w @ [ListCall (UTC s) (UTC t)]
      \<and> cal (fst (book_appointment env w name email phone date time service_name remark))
          = cal w)
   \<and> (\<not> service w \<longrightarrow>
      available (snd (agent_check_availability env w date time))
      \<and> a_message (snd (agent_check_availability env w date time))
          = ''The slot on '' @ date @ '' at '' @ time
            @ '' is available! (Demo mode - calendar not configured)''
      \<and> success (snd (agent_book_appointment env w name email phone date time service_name
            remark))
      \<and> message (snd (agent_book_appointment env w name email phone date time service_name
            remark)) = agent_demo_message service_name date time email)
   \<and> (service w \<and> strptime env date time = Inr s
       \<and> add_minutes s (APPOINTMENT_DURATION env) = Inr t
       \<and> events_list env (cal w) (UTC s) (UTC t) = Inl e \<longrightarrow>
      available (snd (agent_check_availability env w date time))
      \<and> a_message (snd (agent_check_availability env w date time))
          = ''The slot on '' @ date @ '' at '' @ time
            @ '' appears available. (Unable to verify - '' @ e @ '')'')
   \<and> (service w \<and> strptime env date time = Inr s
       \<and> add_minutes s (APPOINTMENT_DURATION env) = Inr t
       \<and> events_list env (cal w) (UTC s) (UTC t) = Inl e
       \<and> events_insert env (cal w)
            (agent_make_event name email phone service_name remark s t) = Inl x \<longrightarrow>
      \<not> success (snd (agent_book_appointment env w name email phone date time service_name
            remark))
      \<and> cal (fst (agent_book_appointment env w name email phone date time service_name
            remark)) = cal w)
   \<and> (service w \<and> strptime env date time = Inr s
       \<and> add_minutes s (APPOINTMENT_DURATION env) = Inr t
       \<and> events_list env (cal w) (UTC s) (UTC t) = Inl e
       \<and> events_insert env (cal w)
            (agent_make_event name email phone service_name remark s t) = Inr (created, g)
       \<longrightarrow>
      success (snd (agent_book_appointment env w name email phone date time service_name
            remark))
      \<and> event_id (snd (agent_book_appointment env w name email phone date time service_name
            remark)) = Some (created_id created)
      \<and> message (snd (agent_book_appointment env w name email phone date time service_name
            remark))
          = ''Perfect! Your '' @ service_name @ '' appointment is confirmed for '' @ date
            @ '' at '' @ time @ ''.''
            @ (if smtp_configured env \<and> smtp_send env email = None
               then '' Email confirmation sent!'' else [])
            @ '' See you then!''
      \<and> cal (fst (agent_book_appointment env w name email phone date time service_name
            remark)) = g)"
proof (intro conjI impI)
  assume a: "\<not> service w \<and> \<not> credentials_load env"
  then have c: "check_availability env w date time =
     (w, \<lparr>available = False, conflicting_events = None,
          a_error = Some ''Calendar service not available'',
          a_message = ''Impossible de v'' @ e_acute @ ''rifier les disponibilit''
            @ e_acute @ ''s pour le moment.''\<rparr>)"
    by (simp add: check_availability_unavailable)
  from a have b: "book_appointment env w name email phone date time service_name remark =
     (w, booking_failure (''Impossible de r'' @ e_acute
               @ ''server le rendez-vous pour le moment.'')
               None (Some ''Calendar service not available''))"
    by (simp add: book_appointment_def ensure_service_unavailable)
  show "\<not> available (snd (check_availability env w date time))" using c by simp
  show "a_error (snd (check_availability env w date time))
          = Some ''Calendar service not available''" using c by simp
  show "\<not> success (snd (book_appointment env w name email phone date time service_name
          remark))"
    using b by (simp add: booking_failure_def)
  show "error (snd (book_appointment env w name email phone date time service_name remark))
          = Some ''Calendar service not available''"
    using b by (simp add: booking_failure_def)
  show "fst (book_appointment env w name email phone date time service_name remark) = w"
    using b by simp
next
  assume a: "(service w \<or> credentials_load env) \<and> strptime env date time = Inr s
       \<and> add_minutes s (APPOINTMENT_DURATION env) = Inr t
       \<and> events_list env (cal w) (UTC s) (UTC t) = Inl e"
  then have sv: "service (ensure_service env w)" by (simp add: ensure_service_available)
  have c: "check_availability env w date time =
     (log_call (ListCall (UTC s) (UTC t)) (ensure_service env w),
      \<lparr>available = False, conflicting_events = None, a_error = Some e,
       a_message = ''Impossible de v'' @ e_acute @ ''rifier les disponibilit''
         @ e_acute @ ''s. Veuillez r'' @ e_acute @ ''essayer.''\<rparr>)"
    using a by (simp add: check_availability_list_raises)
  have c': "check_availability env (ensure_service env w) date time
              = check_availability env w date time"
    using sv by (simp add: check_availability_def ensure_service_idem)
  have b: "book_appointment env w name email phone date time service_name remark =
     (log_call (ListCall (UTC s) (UTC t)) (ensure_service env w),
      booking_failure (''Impossible de v'' @ e_acute @ ''rifier les disponibilit''
         @ e_acute @ ''s. Veuillez r'' @ e_acute @ ''essayer.'')
        (Some ''time_slot_unavailable'') None)"
    using sv by (simp add: book_appointment_def c' c)
  show "\<not> available (snd (check_availability env w date time))" using c by simp
  show "a_error (snd (check_availability env w date time)) = Some e" using c by simp
  show "\<not> success (snd (book_appointment env w name email phone date time service_name
          remark))"
    using b by (simp add: booking_failure_def)
  show "message (snd (book_appointment env w name email phone date time service_name remark))
          = a_message (snd (check_availability env w date time))"
    using b c by (simp add: booking_failure_def)
  show "trace (fst (book_appointment env w name email phone date time service_name remark))
          = trace w @ [ListCall (UTC s) (UTC t)]"
    using b by (simp add: ensure_service_trace)
  show "cal (fst (book_appointment env w name email phone date time service_name remark))
          = cal w"
    using b by (simp add: ensure_service_cal)
next
  assume a: "\<not> service w"
  show "available (snd (agent_check_availability env w date time))"
    using a by (simp add: agent_check_availability_def)
  show "a_message (snd (agent_check_availability env w date time))
          = ''The slot on '' @ date @ '' at '' @ time
            @ '' is available! (Demo mode - calendar not configured)''"
    using a by (simp add: agent_check_availability_def)
  show "success (snd (agent_book_appointment env w name email phone date time service_name
            remark))"
    using a by (simp add: agent_book_appointment_def)
  show "message (snd (agent_book_appointment env w name email phone date time service_name
            remark)) = agent_demo_message service_name date time email"
    using a by (simp add: agent_book_appointment_def)
next
  assume a: "service w \<and> strptime env date time = Inr s
       \<and> add_minutes s (APPOINTMENT_DURATION env) = Inr t
       \<and> events_list env (cal w) (UTC s) (UTC t) = Inl e"
  then have c: "agent_check_availability env w date time =
     (log_call (ListCall (UTC s) (UTC t)) w,
      \<lparr>available = True, conflicting_events = None, a_error = None,
       a_message = ''The slot on '' @ date @ '' at '' @ time
         @ '' appears available. (Unable to verify - '' @ e @ '')''\<rparr>)"
    by (simp add: agent_check_availability_list_raises)
  show "available (snd (agent_check_availability env w date time))"
    using c by simp
  show "a_message (snd (agent_check_availability env w date time))
          = ''The slot on '' @ date @ '' at '' @ time
            @ '' appears available. (Unable to verify - '' @ e @ '')''"
    using c by simp
next
  assume a: "service w \<and> strptime env date time = Inr s
       \<and> add_minutes s (APPOINTMENT_DURATION env) = Inr t
       \<and> events_list env (cal w) (UTC s) (UTC t) = Inl e
       \<and> events_insert env (cal w)
            (agent_make_event name email phone service_name remark s t) = Inl x"
  then have c: "agent_check_availability env w date time =
     (log_call (ListCall (UTC s) (UTC t)) w,
      \<lparr>available = True, conflicting_events = None, a_error = None,
       a_message = ''The slot on '' @ date @ '' at '' @ time
         @ '' appears available. (Unable to verify - '' @ e @ '')''\<rparr>)"
    by (simp add: agent_check_availability_list_raises)
  have b: "agent_book_appointment env w name email phone date time service_name remark =
     (log_call (InsertCall (agent_make_event name email phone service_name remark s t))
        (log_call (ListCall (UTC s) (UTC t)) w), agent_booking_exception)"
    using a by (simp add: agent_book_appointment_def c Let_def)
  show "\<not> success (snd (agent_book_appointment env w name email phone date time service_name
            remark))"
    using b by (simp add: agent_booking_exception_def booking_failure_def)
  show "cal (fst (agent_book_appointment env w name email phone date time service_name
            remark)) = cal w"
    using b by simp
next
  assume a: "service w \<and> strptime env date time = Inr s
       \<and> add_minutes s (APPOINTMENT_DURATION env) = Inr t
       \<and> events_list env (cal w) (UTC s) (UTC t) = Inl e
       \<and> events_insert env (cal w)
            (agent_make_event name email phone service_name remark s t) = Inr (created, g)"
  then have c: "agent_check_availability env w date time =
     (log_call (ListCall (UTC s) (UTC t)) w,
      \<lparr>available = True, conflicting_events = None, a_error = None,
       a_message = ''The slot on '' @ date @ '' at '' @ time
         @ '' appears available. (Unable to verify - '' @ e @ '')''\<rparr>)"
    by (simp add: agent_check_availability_list_raises)
  let ?w3 = "log_call (InsertCall (agent_make_event name email phone service_name remark s t))
        (log_call (ListCall (UTC s) (UTC t)) w)\<lparr>cal := g\<rparr>"
  obtain w5 sent where m: "agent_send_email_confirmation env ?w3 email date time = (w5, sent)"
    by (cases "agent_send_email_confirmation env ?w3 email date time") blast
  have m1: "sent = (smtp_configured env \<and> smtp_send env email = None)" and m2: "cal w5 = g"
    using agent_send_email_confirmation_result [of env date time s t ?w3 email] a m
    by simp_all
  have b: "agent_book_appointment env w name email phone date time service_name remark =
     (w5, \<lparr>success = True, event_id = Some (created_id created), event_link = None,
           message = ''Perfect! Your '' @ service_name @ '' appointment is confirmed for ''
             @ date @ '' at '' @ time @ ''.''
             @ (if sent then '' Email confirmation sent!'' else []) @ '' See you then!'',
           reason = None, error = None, details = None, notifications = None\<rparr>)"
    using a m by (simp add: agent_book_appointment_def c Let_def)
  show "success (snd (agent_book_appointment env w name email phone date time service_name
            remark))"
    using b by simp
  show "event_id (snd (agent_book_appointment env w name email phone date time service_name
            remark)) = Some (created_id created)"
    using b by simp
  show "message (snd (agent_book_appointment env w name email phone date time service_name
            remark))
          = ''Perfect! Your '' @ service_name @ '' appointment is confirmed for '' @ date
            @ '' at '' @ time @ ''.''
            @ (if smtp_configured env \<and> smtp_send env email = None
               then '' Email confirmation sent!'' else [])
            @ '' See you then!''"
    using b m1 by simp
  show "cal (fst (agent_book_appointment env w name email phone date time service_name
            remark)) = g"
    using b m2 by simp
qed

theorem fail_closed_in_calendar_py_only_witness:
  "\<not> available (snd (check_availability (office_env\<lparr>credentials_load := False\<rparr>) empty_world
        ''2025-12-10'' ''14:30''))
   \<and> \<not> success (snd (book_appointment (office_env\<lparr>credentials_load := False\<rparr>) empty_world
        ''Ann'' ''ann@example.org'' ''0612345678'' ''2025-12-10'' ''14:30'' ''Consultation''
        None))
   \<and> \<not> available (snd (check_availability unreachable_env empty_world
        ''2025-12-10'' ''14:30''))
   \<and> a_error (snd (check_availability unreachable_env empty_world ''2025-12-10'' ''14:30''))
       = Some ''timed out''
   \<and> \<not> success (snd (book_appointment unreachable_env empty_world
        ''Ann'' ''ann@example.org'' ''0612345678'' ''2025-12-10'' ''14:30'' ''Consultation''
        None))
   \<and> trace (fst (book_appointment unreachable_env empty_world
        ''Ann'' ''ann@example.org'' ''0612345678'' ''2025-12-10'' ''14:30'' ''Consultation''
        None)) = [ListCall (UTC 29422950) (UTC 29422980)]
   \<and> available (snd (agent_check_availability office_env empty_world ''2025-12-10'' ''14:30''))
   \<and> available (snd (agent_check_availability unreachable_env booked_world
        ''2025-12-10'' ''14:30''))
   \<and> \<not> success (snd (agent_book_appointment
        (unreachable_env\<lparr>events_insert := (\<lambda>g b. Inl ''timed out'')\<rparr>) booked_world
        ''Ann'' ''ann@example.org'' ''0612345678'' ''2025-12-10'' ''14:30'' ''Consultation''
        None))
   \<and> success (snd (agent_book_appointment unreachable_env booked_world
        ''Ann'' ''ann@example.org'' ''0612345678'' ''2025-12-10'' ''14:30'' ''Consultation''
        None))
   \<and> event_id (snd (agent_book_appointment unreachable_env booked_world
        ''Ann'' ''ann@example.org'' ''0612345678'' ''2025-12-10'' ''14:30'' ''Consultation''
        None)) = Some ''evt2''"
proof -
  let ?down = "unreachable_env\<lparr>events_insert := (\<lambda>g b. Inl ''timed out'')\<rparr>"
  have n: "\<not> service empty_world
      \<and> \<not> credentials_load (office_env\<lparr>credentials_load := False\<rparr>)"
    by (simp add: empty_world_def)
  have p: "strptime unreachable_env ''2025-12-10'' ''14:30'' = Inr 29422950"
    by code_simp
  have d: "add_minutes 29422950 (APPOINTMENT_DURATION unreachable_env) = Inr 29422980"
    by code_simp
  have l: "events_list unreachable_env g (UTC 29422950) (UTC 29422980) = Inl ''timed out''"
    for g
    by (simp add: unreachable_env_def)
  have u: "(service empty_world \<or> credentials_load unreachable_env)
      \<and> strptime unreachable_env ''2025-12-10'' ''14:30'' = Inr 29422950
      \<and> add_minutes 29422950 (APPOINTMENT_DURATION unreachable_env) = Inr 29422980
      \<and> events_list unreachable_env (cal empty_world) (UTC 29422950) (UTC 29422980)
           = Inl ''timed out''"
    using p d l by (simp add: unreachable_env_def office_env_def)
  have v: "service booked_world
      \<and> strptime unreachable_env ''2025-12-10'' ''14:30'' = Inr 29422950
      \<and> add_minutes 29422950 (APPOINTMENT_DURATION unreachable_env) = Inr 29422980
      \<and> events_list unreachable_env (cal booked_world) (UTC 29422950) (UTC 29422980)
           = Inl ''timed out''"
    using p d l by (simp add: booked_world_def)
  have v': "service booked_world
      \<and> strptime ?down ''2025-12-10'' ''14:30'' = Inr 29422950
      \<and> add_minutes 29422950 (APPOINTMENT_DURATION ?down) = Inr 29422980
      \<and> events_list ?down (cal booked_world) (UTC 29422950) (UTC 29422980)
           = Inl ''timed out''
      \<and> events_insert ?down (cal booked_world)
           (agent_make_event ''Ann'' ''ann@example.org'' ''0612345678'' ''Consultation'' None
              29422950 29422980) = Inl ''timed out''"
    using v by simp
  have i: "events_insert unreachable_env (cal booked_world)
           (agent_make_event ''Ann'' ''ann@example.org'' ''0612345678'' ''Consultation'' None
              29422950 29422980)
         = Inr (\<lparr>created_id = ''evt2'', htmlLink = None\<rparr>,
                \<lparr>next_id = 3,
                 evs = [\<lparr>ev_id = ''evt1'', ev_start = 29422920, ev_end = 29422950\<rparr>,
                        \<lparr>ev_id = ''evt2'', ev_start = 29422950, ev_end = 29422980\<rparr>]\<rparr>)"
    by code_simp
  have t: "trace empty_world = []" by (simp add: empty_world_def)
  note a = fail_closed_in_calendar_py_only [where w = empty_world
      and env = "office_env\<lparr>credentials_load := False\<rparr>" and date = "''2025-12-10''"
      and time = "''14:30''" and name = "''Ann''" and email = "''ann@example.org''"
      and phone = "''0612345678''" and service_name = "''Consultation''" and remark = None]
  note b = fail_closed_in_calendar_py_only [where w = empty_world
      and env = unreachable_env and date = "''2025-12-10''"
      and time = "''14:30''" and name = "''Ann''" and email = "''ann@example.org''"
      and phone = "''0612345678''" and service_name = "''Consultation''" and remark = None
      and s = 29422950 and t = 29422980 and e = "''timed out''"]
  note c = fail_closed_in_calendar_py_only [where w = empty_world
      and env = office_env and date = "''2025-12-10''"
      and time = "''14:30''" and name = "''Ann''" and email = "''ann@example.org''"
      and phone = "''0612345678''" and service_name = "''Consultation''" and remark = None]
  note f = fail_closed_in_calendar_py_only [where w = booked_world
      and env = unreachable_env and date = "''2025-12-10''"
      and time = "''14:30''" and name = "''Ann''" and email = "''ann@example.org''"
      and phone = "''0612345678''" and service_name = "''Consultation''" and remark = None
      and s = 29422950 and t = 29422980 and e = "''timed out''"
      and created = "\<lparr>created_id = ''evt2'', htmlLink = None\<rparr>"
      and g = "\<lparr>next_id = 3,
                 evs = [\<lparr>ev_id = ''evt1'', ev_start = 29422920, ev_end = 29422950\<rparr>,
                        \<lparr>ev_id = ''evt2'', ev_start = 29422950, ev_end = 29422980\<rparr>]\<rparr>"]
  note h = fail_closed_in_calendar_py_only [where w = booked_world
      and env = ?down and date = "''2025-12-10''"
      and time = "''14:30''" and name = "''Ann''" and email = "''ann@example.org''"
      and phone = "''0612345678''" and service_name = "''Consultation''" and remark = None
      and s = 29422950 and t = 29422980 and e = "''timed out''" and x = "''timed out''"]
  from a n have 1: "\<not> available (snd (check_availability
        (office_env\<lparr>credentials_load := False\<rparr>) empty_world ''2025-12-10'' ''14:30''))
   \<and> \<not> success (snd (book_appointment (office_env\<lparr>credentials_load := False\<rparr>) empty_world
        ''Ann'' ''ann@example.org'' ''0612345678'' ''2025-12-10'' ''14:30'' ''Consultation''
        None))" by blast
  from b u have 2: "\<not> available (snd (check_availability unreachable_env empty_world
        ''2025-12-10'' ''14:30''))
   \<and> a_error (snd (check_availability unreachable_env empty_world ''2025-12-10'' ''14:30''))
       = Some ''timed out''
   \<and> \<not> success (snd (book_appointment unreachable_env empty_world
        ''Ann'' ''ann@example.org'' ''0612345678'' ''2025-12-10'' ''14:30'' ''Consultation''
        None))
   \<and> trace (fst (book_appointment unreachable_env empty_world
        ''Ann'' ''ann@example.org'' ''0612345678'' ''2025-12-10'' ''14:30'' ''Consultation''
        None)) = trace empty_world @ [ListCall (UTC 29422950) (UTC 29422980)]" by blast
  from c n have 3: "available (snd (agent_check_availability office_env empty_world
        ''2025-12-10'' ''14:30''))"
    by blast
  from f v have 4: "available (snd (agent_check_availability unreachable_env booked_world
        ''2025-12-10'' ''14:30''))" by blast
  from h v' have 5: "\<not> success (snd (agent_book_appointment ?down booked_world
        ''Ann'' ''ann@example.org'' ''0612345678'' ''2025-12-10'' ''14:30'' ''Consultation''
        None))" by blast
  from f v i have 6: "success (snd (agent_book_appointment unreachable_env booked_world
        ''Ann'' ''ann@example.org'' ''0612345678'' ''2025-12-10'' ''14:30'' ''Consultation''
        None))
   \<and> event_id (snd (agent_book_appointment unreachable_env booked_world
        ''Ann'' ''ann@example.org'' ''0612345678'' ''2025-12-10'' ''14:30'' ''Consultation''
        None)) = Some (created_id \<lparr>created_id = ''evt2'', htmlLink = None\<rparr>)" by blast
  show ?thesis using 1 2 3 4 5 6 t by simp
qed

section \<open>Booking\<close>

lemma send_email_confirmation_result:
  "trace (fst (send_email_confirmation env w email))
     = trace w @ (if smtp_configured env then [SmtpSend email] else [])"
  "cal (fst (send_email_confirmation env w email)) = cal w"
  "o_success (snd (send_email_confirmation env w email))
     = (smtp_configured env \<and> smtp_send env email = None)"
  by (auto simp: send_email_confirmation_def Let_def split: option.splits)

lemma send_sms_confirmation_result:
  "trace (fst (send_sms_confirmation env w phone))
     = trace w @ (if twilio_configured env then [TwilioPost (format_phone phone)] else [])"
  "cal (fst (send_sms_confirmation env w phone)) = cal w"
  "o_success (snd (send_sms_confirmation env w phone))
     = (twilio_configured env \<and> twilio_post env (format_phone phone) = Inr 201)"
  by (auto simp: send_sms_confirmation_def Let_def split: sum.splits)

text \<open>
  C3: whenever the end of the slot is a valid datetime, the slot is free and the gateway
  creates the event, \<open>book_appointment\<close> returns \<open>success = True\<close> with the event id,
  whatever the two channels do; the result records one outcome per channel whose success
  flag is exactly that channel's result (so both are \<open>False\<close> when both fail); the
  calendar is the one the insert returned and no delete call follows the insert.
\<close>

theorem booking_survives_notification_failures:
  assumes "service w \<or> credentials_load env"
    and "strptime env date time = Inr s"
    and "add_minutes s (APPOINTMENT_DURATION env) = Inr t"
    and "events_list env (cal w) (UTC s) (UTC t) = Inr []"
    and "events_insert env (cal w) (make_event name email phone service_name remark s t)
         = Inr (created, g)"
  shows "success (snd (book_appointment env w name email phone date time service_name remark))
    \<and> event_id (snd (book_appointment env w name email phone date time service_name remark))
        = Some (created_id created)
    \<and> map_option (\<lambda>(e, m). (o_success e, o_success m))
        (notifications (snd (book_appointment env w name email phone date time service_name
           remark)))
        = Some (smtp_configured env \<and> smtp_send env email = None,
                phone \<noteq> [] \<and> twilio_configured env
                \<and> twilio_post env (format_phone phone) = Inr 201)
    \<and> cal (fst (book_appointment env w name email phone date time service_name remark)) = g
    \<and> trace (fst (book_appointment env w name email phone date time service_name remark))
        = trace w
          @ [ListCall (UTC s) (UTC t),
             InsertCall (make_event name email phone service_name remark s t)]
          @ (if smtp_configured env then [SmtpSend email] else [])
          @ (if phone \<noteq> [] \<and> twilio_configured env then [TwilioPost (format_phone phone)]
             else [])"
proof -
  let ?ev = "make_event name email phone service_name remark s t"
  let ?w3 = "log_call (InsertCall ?ev)
        (log_call (ListCall (UTC s) (UTC t)) (ensure_service env w))\<lparr>cal := g\<rparr>"
  have sv: "service (ensure_service env w)"
    using assms(1) by (rule ensure_service_available)
  have c: "check_availability env (ensure_service env w) date time =
     (log_call (ListCall (UTC s) (UTC t)) (ensure_service env w),
      \<lparr>available = True, conflicting_events = None, a_error = None,
       a_message = msg_slot_free date time\<rparr>)"
    using check_availability_listed [of "ensure_service env w" env date time s t "[]"]
      sv assms(2,3,4)
    by (simp add: ensure_service_idem ensure_service_cal)
  obtain w5 er where e: "send_email_confirmation env ?w3 email = (w5, er)"
    by (cases "send_email_confirmation env ?w3 email") blast
  obtain w6 sr where m: "(if phone \<noteq> [] then send_sms_confirmation env w5 phone
       else (w5, \<lparr>o_success = False, o_error = None,
              o_message = ''SMS non configur'' @ e_acute\<rparr>)) = (w6, sr)"
    by (cases "(if phone \<noteq> [] then send_sms_confirmation env w5 phone
       else (w5, \<lparr>o_success = False, o_error = None,
              o_message = ''SMS non configur'' @ e_acute\<rparr>))") blast
  have e1: "trace w5 = trace w @ [ListCall (UTC s) (UTC t), InsertCall ?ev]
          @ (if smtp_configured env then [SmtpSend email] else [])"
    and e2: "cal w5 = g"
    and e3: "o_success er = (smtp_configured env \<and> smtp_send env email = None)"
    using send_email_confirmation_result [of env ?w3 email] e
    by (simp_all add: ensure_service_trace)
  have m1: "trace w6 = trace w5
      @ (if phone \<noteq> [] \<and> twilio_configured env then [TwilioPost (format_phone phone)]
         else [])"
    and m2: "cal w6 = cal w5"
    and m3: "o_success sr = (phone \<noteq> [] \<and> twilio_configured env
                \<and> twilio_post env (format_phone phone) = Inr 201)"
    using send_sms_confirmation_result [of env w5 phone] m
    by (auto split: if_splits)
  have b: "book_appointment env w name email phone date time service_name remark =
    (w6,
     \<lparr>success = True, event_id = Some (created_id created),
      event_link = Some (case htmlLink created of None \<Rightarrow> [] | Some l \<Rightarrow> l),
      message = ''Parfait ! Votre rendez-vous est confirm'' @ e_acute @ '' le '' @ date
        @ '' '' @ a_grave @ '' '' @ time @ ''.'' @ notification_message er sr,
      reason = None, error = None,
      details = Some \<lparr>d_name = name, d_date = date, d_time = time, d_service = service_name,
        d_duration = str_int (APPOINTMENT_DURATION env) @ '' minutes''\<rparr>,
      notifications = Some (er, sr)\<rparr>)"
    using sv assms(2,3,5) e m
    by (simp add: book_appointment_def c Let_def ensure_service_cal)
  show ?thesis
    unfolding b using e1 e2 e3 m1 m2 m3 by simp
qed

theorem booking_survives_notification_failures_witness:
  "success (snd (book_appointment silent_env empty_world ''Ann'' ''ann@example.org''
        ''0612345678'' ''2025-12-10'' ''14:30'' ''Consultation'' None))
   \<and> event_id (snd (book_appointment silent_env empty_world ''Ann'' ''ann@example.org''
        ''0612345678'' ''2025-12-10'' ''14:30'' ''Consultation'' None)) = Some ''evt1''
   \<and> map_option (\<lambda>(e, m). (o_success e, o_success m))
        (notifications (snd (book_appointment silent_env empty_world ''Ann''
           ''ann@example.org'' ''0612345678'' ''2025-12-10'' ''14:30'' ''Consultation'' None)))
       = Some (False, False)
   \<and> evs (cal (fst (book_appointment silent_env empty_world ''Ann'' ''ann@example.org''
        ''0612345678'' ''2025-12-10'' ''14:30'' ''Consultation'' None)))
       = [\<lparr>ev_id = ''evt1'', ev_start = 29422890, ev_end = 29422920\<rparr>]
   \<and> filter is_notification
        (trace (fst (book_appointment silent_env empty_world ''Ann'' ''ann@example.org''
           ''0612345678'' ''2025-12-10'' ''14:30'' ''Consultation'' None)))
       = [SmtpSend ''ann@example.org'', TwilioPost ''+33612345678'']
   \<and> filter is_write
        (trace (fst (book_appointment silent_env empty_world ''Ann'' ''ann@example.org''
           ''0612345678'' ''2025-12-10'' ''14:30'' ''Consultation'' None)))
       = [InsertCall (make_event ''Ann'' ''ann@example.org'' ''0612345678'' ''Consultation''
            None 29422950 29422980)]"
proof -
  have a: "service empty_world \<or> credentials_load silent_env"
    by (simp add: silent_env_def office_env_def)
  have p: "strptime silent_env ''2025-12-10'' ''14:30'' = Inr 29422950"
    by code_simp
  have d: "add_minutes 29422950 (APPOINTMENT_DURATION silent_env) = Inr 29422980"
    by code_simp
  have l: "events_list silent_env (cal empty_world) (UTC 29422950) (UTC 29422980) = Inr []"
    by code_simp
  have i: "events_insert silent_env (cal empty_world)
             (make_event ''Ann'' ''ann@example.org'' ''0612345678'' ''Consultation'' None
                29422950 29422980)
           = Inr (\<lparr>created_id = ''evt1'', htmlLink = None\<rparr>,
                  \<lparr>next_id = 2,
                   evs = [\<lparr>ev_id = ''evt1'', ev_start = 29422890, ev_end = 29422920\<rparr>]\<rparr>)"
    by code_simp
  have c: "smtp_configured silent_env" "twilio_configured silent_env"
    "smtp_send silent_env ''ann@example.org'' = Some ''Connection refused''"
    "twilio_post silent_env ''+33612345678'' = Inr 500"
    by (simp_all add: silent_env_def office_env_def)
  have f: "format_phone ''0612345678'' = ''+33612345678''" by code_simp
  have t: "trace empty_world = []" by (simp add: empty_world_def)
  show ?thesis
    using booking_survives_notification_failures [OF a p d l i] c f t
    by simp
qed

section \<open>Conflicts: the time line of the query and the time line of the event\<close>

text \<open>
  \<open>intersects a b c d\<close> is the intersection test of the half-open intervals \<open>[a, b)\<close> and
  \<open>[c, d)\<close>: it holds exactly when they share a point.
\<close>

lemma intersects_common_point:
  "intersects a b c d \<longleftrightarrow> (\<exists>t. a \<le> t \<and> t < b \<and> c \<le> t \<and> t < d)"
proof
  assume "intersects a b c d"
  then have "a \<le> max a c \<and> max a c < b \<and> c \<le> max a c \<and> max a c < d"
    by (auto simp: intersects_def)
  then show "\<exists>t. a \<le> t \<and> t < b \<and> c \<le> t \<and> t < d" by blast
next
  assume "\<exists>t. a \<le> t \<and> t < b \<and> c \<le> t \<and> t < d"
  then show "intersects a b c d" by (auto simp: intersects_def)
qed

text \<open>
  What the guard of \<open>book_appointment\<close> does when the query does return events: it refuses
  the booking with the count in the message, and the query is its only external call.
\<close>

lemma book_appointment_refuses_listed_conflict:
  assumes "service w \<or> credentials_load env"
    and "strptime env date time = Inr s"
    and "add_minutes s (APPOINTMENT_DURATION env) = Inr t"
    and "events_list env (cal w) (UTC s) (UTC t) = Inr events"
    and "events \<noteq> []"
  shows "book_appointment env w name email phone date time service_name remark =
     (log_call (ListCall (UTC s) (UTC t)) (ensure_service env w),
      booking_failure (msg_slot_taken (length events)) (Some ''time_slot_unavailable'') None)"
proof -
  have sv: "service (ensure_service env w)"
    using assms(1) by (rule ensure_service_available)
  have c: "check_availability env (ensure_service env w) date time =
     (log_call (ListCall (UTC s) (UTC t)) (ensure_service env w),
      \<lparr>available = False, conflicting_events = Some (length events), a_error = None,
       a_message = msg_slot_taken (length events)\<rparr>)"
    using check_availability_listed [of "ensure_service env w" env date time s t events]
      sv assms(2,3,4,5)
    by (simp add: ensure_service_idem ensure_service_cal)
  show ?thesis
    using sv by (simp add: book_appointment_def c)
qed

text \<open>
  Against the reference store the availability check compares instants: the slot's wall
  clock read as UTC against the stored instants of the events.
\<close>

lemma check_availability_compares_instants:
  assumes "events_list env = ref_list"
    and "service w \<or> credentials_load env"
    and "strptime env date time = Inr s"
    and "add_minutes s (APPOINTMENT_DURATION env) = Inr t"
  shows "available (snd (check_availability env w date time))
      \<longleftrightarrow> list_all (\<lambda>e. \<not> intersects (ev_start e) (ev_end e) s t) (evs (cal w))"
proof -
  have l: "events_list env (cal w) (UTC s) (UTC t)
    = Inr (filter (\<lambda>e. intersects (ev_start e) (ev_end e) s t) (evs (cal w)))"
    using assms(1) by simp
  have e: "filter P xs = [] \<longleftrightarrow> list_all (\<lambda>x. \<not> P x) xs" for P :: "cal_event \<Rightarrow> bool" and xs
    by (induction xs) auto
  show ?thesis
    using check_availability_listed [OF assms(2,3,4) l] e by simp
qed

text \<open>
  The English agent writes its events in the zone of its queries (\<open>UTC\<close>): the slot it has
  booked is refused afterwards and is no longer offered, while its neighbours are.
\<close>

lemma agent_booked_slot_not_offered:
  "evs (cal agent_once_booked_world)
     = [\<lparr>ev_id = ''evt1'', ev_start = 29422920, ev_end = 29422950\<rparr>]
   \<and> \<not> available (snd (agent_check_availability office_env agent_once_booked_world
          ''2025-12-10'' ''14:00''))
   \<and> \<not> success (snd (agent_book_appointment office_env agent_once_booked_world ''Bob''
          ''bob@example.org'' ''0698765432'' ''2025-12-10'' ''14:00'' ''Consultation'' None))
   \<and> slots (snd (agent_get_available_slots office_env agent_once_booked_world ''2025-12-10''))
       = [''09:00'', ''09:30'', ''10:00'', ''10:30'', ''11:00'', ''11:30'', ''12:00'',
          ''12:30'', ''13:00'', ''13:30'', ''14:30'', ''15:00'', ''15:30'', ''16:00'']"
  by code_simp

text \<open>
  C5 fails on \<^verbatim>\<open>src/agent/tools/calendar.py\<close>: \<open>book_appointment\<close> writes the event
  2025-12-10 14:00 to 14:30 as wall clock of \<open>Europe/Paris\<close> (13:00 to 13:30 UTC) but
  queries the slot as 14:00 to 14:30 UTC. A second request for the same date and time has
  the first event on its slot, yet the query returns nothing: the code inserts a second
  event on the same interval, sends both notifications and returns \<open>success = True\<close>.
\<close>

theorem slot_booked_twice:
  "evs (cal once_booked_world)
     = [\<lparr>ev_id = ''evt1'', ev_start = 29422860, ev_end = 29422890\<rparr>]
   \<and> strptime office_env ''2025-12-10'' ''14:00'' = Inr 29422920
   \<and> to_instant ''Europe/Paris'' 29422920 = 29422860
   \<and> to_instant ''Europe/Paris'' 29422950 = 29422890
   \<and> success (snd (book_appointment office_env once_booked_world ''Bob'' ''bob@example.org''
        ''0698765432'' ''2025-12-10'' ''14:00'' ''Consultation'' None))
   \<and> event_id (snd (book_appointment office_env once_booked_world ''Bob''
        ''bob@example.org'' ''0698765432'' ''2025-12-10'' ''14:00'' ''Consultation'' None))
       = Some ''evt2''
   \<and> evs (cal (fst (book_appointment office_env once_booked_world ''Bob''
        ''bob@example.org'' ''0698765432'' ''2025-12-10'' ''14:00'' ''Consultation'' None)))
       = [\<lparr>ev_id = ''evt1'', ev_start = 29422860, ev_end = 29422890\<rparr>,
          \<lparr>ev_id = ''evt2'', ev_start = 29422860, ev_end = 29422890\<rparr>]
   \<and> drop (length (trace once_booked_world))
        (trace (fst (book_appointment office_env once_booked_world ''Bob''
           ''bob@example.org'' ''0698765432'' ''2025-12-10'' ''14:00'' ''Consultation'' None)))
       = [ListCall (UTC 29422920) (UTC 29422950),
          InsertCall (make_event ''Bob'' ''bob@example.org'' ''0698765432'' ''Consultation''
            None 29422920 29422950),
          SmtpSend ''bob@example.org'', TwilioPost ''+33698765432'']"
  by code_simp

text \<open>
  C7 fails on \<^verbatim>\<open>src/agent/tools/calendar.py\<close> for the same reason: with the event that
  \<open>book_appointment\<close> wrote for 2025-12-10 14:00 to 14:30 on the calendar and duration 30,
  slot 14:00 is reported available and stays in the list of available slots, while slot
  13:00, which no event touches, is reported taken and is left out.
\<close>

theorem booked_slot_still_offered:
  "evs (cal once_booked_world)
     = [\<lparr>ev_id = ''evt1'', ev_start = 29422860, ev_end = 29422890\<rparr>]
   \<and> APPOINTMENT_DURATION office_env = 30
   \<and> available (snd (check_availability office_env once_booked_world
        ''2025-12-10'' ''14:00''))
   \<and> \<not> available (snd (check_availability office_env once_booked_world
        ''2025-12-10'' ''13:00''))
   \<and> conflicting_events (snd (check_availability office_env once_booked_world
        ''2025-12-10'' ''13:00'')) = Some 1
   \<and> slots (snd (get_available_slots office_env once_booked_world ''2025-12-10''))
       = [''09:00'', ''09:30'', ''10:00'', ''10:30'', ''11:00'', ''11:30'', ''12:00'',
          ''12:30'', ''13:30'', ''14:00'', ''14:30'', ''15:00'', ''15:30'', ''16:00'']"
  by code_simp

end
